theory Spec2Isabelle
  imports Main "HOL-Library.Sublist"
begin

section \<open>JavaScript values\<close>

text \<open>
  The worker handles values of unknown shape: the body that \<^verbatim>\<open>res.json()\<close> returns, the
  \<^verbatim>\<open>cf\<close> object of the request, the payload read from the key-value store. They are
  modelled by one datatype. The worker never computes with a number: it tests it, prints
  it and hands it on. A number is therefore held as its numeral, the text that JavaScript
  prints for it (\<^verbatim>\<open>7\<close>, \<^verbatim>\<open>-1.5\<close>, \<^verbatim>\<open>1e+21\<close>, \<^verbatim>\<open>NaN\<close>), which determines
  the number up to the sign of zero. An object is the list of its own properties in the
  order in which JavaScript enumerates them; strings are lists of code units.
\<close>

datatype jsv =
    JUndefined
  | JNull
  | JBool bool
  | JNum string
  | JStr string
  | JArr "jsv list"
  | JObj "(string \<times> jsv) list"

datatype jstype = TUndefined | TObject | TBoolean | TNumber | TString

text \<open>\<^verbatim>\<open>typeof v\<close>: \<^verbatim>\<open>null\<close> and arrays are objects.\<close>

fun typeof :: "jsv \<Rightarrow> jstype" where
  "typeof JUndefined = TUndefined"
| "typeof JNull = TObject"
| "typeof (JBool b) = TBoolean"
| "typeof (JNum n) = TNumber"
| "typeof (JStr s) = TString"
| "typeof (JArr xs) = TObject"
| "typeof (JObj kvs) = TObject"

text \<open>The value of \<^verbatim>\<open>v\<close> in a condition (\<^verbatim>\<open>if (v)\<close>, \<^verbatim>\<open>!v\<close>, \<^verbatim>\<open>v || d\<close>, \<^verbatim>\<open>c && e\<close>).\<close>

fun truthy :: "jsv \<Rightarrow> bool" where
  "truthy JUndefined = False"
| "truthy JNull = False"
| "truthy (JBool b) = b"
| "truthy (JNum n) = (n \<noteq> ''0'' \<and> n \<noteq> ''NaN'')"
| "truthy (JStr s) = (s \<noteq> [])"
| "truthy (JArr xs) = True"
| "truthy (JObj kvs) = True"

text \<open>\<^verbatim>\<open>Array.isArray(v)\<close> and the elements of an array.\<close>

fun isArray :: "jsv \<Rightarrow> bool" where
  "isArray (JArr xs) = True"
| "isArray v = False"

fun elems :: "jsv \<Rightarrow> jsv list" where
  "elems (JArr xs) = xs"
| "elems v = []"

text \<open>
  \<^verbatim>\<open>v?.k\<close> for the property names the worker reads (\<^verbatim>\<open>meta\<close>, \<^verbatim>\<open>schema\<close>,
  \<^verbatim>\<open>columns\<close>, \<^verbatim>\<open>name\<close>, \<^verbatim>\<open>data\<close>, \<^verbatim>\<open>rows\<close>, \<^verbatim>\<open>result\<close>, \<^verbatim>\<open>items\<close>,
  \<^verbatim>\<open>country\<close>, \<^verbatim>\<open>region\<close>, \<^verbatim>\<open>asn\<close>): none of them is a property of an array, a
  string, a number or a boolean, so only an object can hold one. The plain \<^verbatim>\<open>v.k\<close> is
  the same read where \<^verbatim>\<open>v\<close> is neither \<^verbatim>\<open>null\<close> nor \<^verbatim>\<open>undefined\<close>, and raises a
  TypeError where it is one of them: that is \<open>get_member\<close> below.
\<close>

fun get_prop :: "jsv \<Rightarrow> string \<Rightarrow> jsv" where
  "get_prop (JObj kvs) k = (case map_of kvs k of Some v \<Rightarrow> v | None \<Rightarrow> JUndefined)"
| "get_prop v k = JUndefined"

datatype js_error = Error string | TypeError string | SyntaxError string

text \<open>\<^verbatim>\<open>String(err)\<close> for an error object: its name, a colon and its message.\<close>

fun error_name :: "js_error \<Rightarrow> string" where
  "error_name (Error m) = ''Error''"
| "error_name (TypeError m) = ''TypeError''"
| "error_name (SyntaxError m) = ''SyntaxError''"

fun error_message :: "js_error \<Rightarrow> string" where
  "error_message (Error m) = m"
| "error_message (TypeError m) = m"
| "error_message (SyntaxError m) = m"

definition error_to_string :: "js_error \<Rightarrow> string" where
  "error_to_string err =
     (if error_message err = [] then error_name err
      else error_name err @ '': '' @ error_message err)"

fun get_member :: "jsv \<Rightarrow> string \<Rightarrow> js_error + jsv" where
  "get_member JUndefined k =
     Inl (TypeError (''Cannot read properties of undefined (reading '' @ [CHR 0x27] @ k @ [CHR 0x27] @ '')''))"
| "get_member JNull k =
     Inl (TypeError (''Cannot read properties of null (reading '' @ [CHR 0x27] @ k @ [CHR 0x27] @ '')''))"
| "get_member v k = Inr (get_prop v k)"

text \<open>
  The decimal numeral of a number, as a template literal and \<^verbatim>\<open>String\<close> print it:
  the digits are produced from the last one, in front of those already there.
\<close>

definition digit_char :: "nat \<Rightarrow> char" where
  "digit_char d = char_of (of_char (CHR ''0'') + d)"

function decimal_onto :: "nat \<Rightarrow> string \<Rightarrow> string" where
  "decimal_onto n acc =
     (let acc' = digit_char (n mod 10) # acc
      in if n div 10 = 0 then acc' else decimal_onto (n div 10) acc')"
  by pat_completeness auto
termination
  by (relation "measure fst") auto

definition decimal :: "nat \<Rightarrow> string" where
  "decimal n = decimal_onto n []"

fun join_with :: "string \<Rightarrow> string list \<Rightarrow> string" where
  "join_with sep [] = []"
| "join_with sep [x] = x"
| "join_with sep (x # y # ys) = x @ sep @ join_with sep (y # ys)"

text \<open>The results of a list of steps in their order, or the first error among them.\<close>

fun first_error :: "(js_error + 'a) list \<Rightarrow> js_error + 'a list" where
  "first_error [] = Inr []"
| "first_error (r # rs) =
     (case r of
        Inl err \<Rightarrow> Inl err
      | Inr x \<Rightarrow> (case first_error rs of Inl err \<Rightarrow> Inl err | Inr xs \<Rightarrow> Inr (x # xs)))"

text \<open>
  \<^verbatim>\<open>String(v)\<close>. A number prints as its numeral. An array prints its elements from the
  first on, separated by commas, \<^verbatim>\<open>null\<close> and \<^verbatim>\<open>undefined\<close> elements as nothing. A
  plain object prints as \<^verbatim>\<open>[object Object]\<close> through the \<^verbatim>\<open>toString\<close> that it
  inherits; when it has a property \<^verbatim>\<open>toString\<close> of its own, which in a value of this
  datatype is no function, the conversion finds no method that gives a primitive value
  (the inherited \<^verbatim>\<open>valueOf\<close> gives the object itself) and raises a TypeError.
\<close>

fun js_String :: "jsv \<Rightarrow> js_error + string" where
  "js_String JUndefined = Inr ''undefined''"
| "js_String JNull = Inr ''null''"
| "js_String (JBool b) = Inr (if b then ''true'' else ''false'')"
| "js_String (JNum n) = Inr n"
| "js_String (JStr s) = Inr s"
| "js_String (JArr xs) =
     (case first_error
             (map (\<lambda>x. if x = JNull \<or> x = JUndefined then Inr [] else js_String x) xs) of
        Inl err \<Rightarrow> Inl err
      | Inr parts \<Rightarrow> Inr (join_with '','' parts))"
| "js_String (JObj kvs) =
     (if map_of kvs ''toString'' \<noteq> None
      then Inl (TypeError ''Cannot convert object to primitive value'')
      else Inr ''[object Object]'')"

text \<open>\<^verbatim>\<open>String(v)\<close> of a value that is a string: the string itself.\<close>

fun string_value :: "jsv \<Rightarrow> string" where
  "string_value (JStr s) = s"
| "string_value v = []"

text \<open>
  \<^verbatim>\<open>v[i]\<close> for a number \<^verbatim>\<open>i\<close>: an element of an array, a character of a string, the
  property named by the digits of \<^verbatim>\<open>i\<close> of an object, \<^verbatim>\<open>undefined\<close> where there is
  none, and a TypeError on \<^verbatim>\<open>null\<close> and \<^verbatim>\<open>undefined\<close>.
\<close>

fun get_index :: "jsv \<Rightarrow> nat \<Rightarrow> js_error + jsv" where
  "get_index JUndefined i =
     Inl (TypeError (''Cannot read properties of undefined (reading '' @ [CHR 0x27] @ decimal i @ [CHR 0x27] @ '')''))"
| "get_index JNull i =
     Inl (TypeError (''Cannot read properties of null (reading '' @ [CHR 0x27] @ decimal i @ [CHR 0x27] @ '')''))"
| "get_index (JArr xs) i = Inr (if i < length xs then xs ! i else JUndefined)"
| "get_index (JStr s) i = Inr (if i < length s then JStr [s ! i] else JUndefined)"
| "get_index (JObj kvs) i = Inr (get_prop (JObj kvs) (decimal i))"
| "get_index (JBool b) i = Inr JUndefined"
| "get_index (JNum n) i = Inr JUndefined"

text \<open>
  The own properties of an object are enumerated with the array indices first, in
  ascending order, and the other keys after them in the order of their creation. An array
  index is the decimal numeral, without leading zeros, of a number below 4294967295.
\<close>

definition is_digit :: "char \<Rightarrow> bool" where
  "is_digit c \<longleftrightarrow> 48 \<le> (of_char c :: nat) \<and> (of_char c :: nat) \<le> 57"

definition numeral_value :: "string \<Rightarrow> nat" where
  "numeral_value k = foldl (\<lambda>n c. 10 * n + (of_char c - 48)) 0 k"

definition array_index :: "string \<Rightarrow> nat option" where
  "array_index k =
     (if k \<noteq> [] \<and> list_all is_digit k \<and> (k = ''0'' \<or> hd k \<noteq> CHR ''0'')
         \<and> numeral_value k < 4294967295
      then Some (numeral_value k) else None)"

text \<open>A new array index goes before the first key that is no smaller array index.\<close>

fun insert_index :: "nat \<Rightarrow> string \<Rightarrow> jsv \<Rightarrow> (string \<times> jsv) list \<Rightarrow> (string \<times> jsv) list" where
  "insert_index n k v [] = [(k, v)]"
| "insert_index n k v ((k', v') # kvs) =
     (case array_index k' of
        Some m \<Rightarrow> if m < n then (k', v') # insert_index n k v kvs else (k, v) # (k', v') # kvs
      | None \<Rightarrow> (k, v) # (k', v') # kvs)"

fun replace_value :: "(string \<times> jsv) list \<Rightarrow> string \<Rightarrow> jsv \<Rightarrow> (string \<times> jsv) list" where
  "replace_value [] k v = []"
| "replace_value ((k', v') # kvs) k v =
     (if k' = k then (k, v) # kvs else (k', v') # replace_value kvs k v)"

text \<open>
  \<^verbatim>\<open>obj[k] = v\<close> on an object that started as \<^verbatim>\<open>{}\<close>: an existing property keeps its
  place and takes the new value; a new one takes its place in the enumeration. The key
  \<^verbatim>\<open>__proto__\<close> is the accessor inherited from \<^verbatim>\<open>Object.prototype\<close>: assigning to
  it adds no own property.
\<close>

definition set_prop :: "(string \<times> jsv) list \<Rightarrow> string \<Rightarrow> jsv \<Rightarrow> (string \<times> jsv) list" where
  "set_prop obj k v =
     (if map_of obj k \<noteq> None then replace_value obj k v
      else case array_index k of
             Some n \<Rightarrow> insert_index n k v obj
           | None \<Rightarrow> obj @ [(k, v)])"

definition assign_prop :: "(string \<times> jsv) list \<Rightarrow> string \<Rightarrow> jsv \<Rightarrow> (string \<times> jsv) list" where
  "assign_prop obj k v = (if k = ''__proto__'' then obj else set_prop obj k v)"


section \<open>Regular expressions\<close>

text \<open>
  The two patterns of the worker use literal characters, a character class, the two
  anchors, sequence and alternation, under the flag \<^verbatim>\<open>i\<close>. \<open>rmatch r s i\<close> lists the
  positions at which a match of \<open>r\<close> that starts at position \<open>i\<close> of \<open>s\<close> can end, in the
  order the backtracking matcher tries them; \<^verbatim>\<open>test\<close> tries every start position.
  Without the flag \<^verbatim>\<open>m\<close> the anchors match at the two ends of the input only.

  Under the flag \<^verbatim>\<open>i\<close> two characters match when they have the same canonical form,
  their upper case. A character outside ASCII never has an ASCII canonical form, and
  every character of the two patterns is ASCII, so such a character is left as it is.
\<close>

definition canonicalize :: "char \<Rightarrow> char" where
  "canonicalize c =
     (let n = (of_char c :: nat) in if 97 \<le> n \<and> n \<le> 122 then char_of (n - 32) else c)"

datatype regex =
    Eps
  | Lit char
  | Cls "char list"
  | Bol
  | Eol
  | Seq regex regex
  | Alt regex regex

fun rmatch :: "regex \<Rightarrow> string \<Rightarrow> nat \<Rightarrow> nat list" where
  "rmatch Eps s i = [i]"
| "rmatch (Lit c) s i =
     (if i < length s \<and> canonicalize (s ! i) = canonicalize c then [Suc i] else [])"
| "rmatch (Cls cs) s i =
     (if i < length s \<and> canonicalize (s ! i) \<in> canonicalize ` set cs then [Suc i] else [])"
| "rmatch Bol s i = (if i = 0 then [i] else [])"
| "rmatch Eol s i = (if i = length s then [i] else [])"
| "rmatch (Seq r1 r2) s i = concat (map (rmatch r2 s) (rmatch r1 s i))"
| "rmatch (Alt r1 r2) s i = rmatch r1 s i @ rmatch r2 s i"

definition regex_test :: "regex \<Rightarrow> string \<Rightarrow> bool" where
  "regex_test r s = list_ex (\<lambda>i. rmatch r s i \<noteq> []) [0..<Suc (length s)]"

text \<open>A run of literal characters followed by \<open>r\<close>.\<close>

fun lits :: "string \<Rightarrow> regex \<Rightarrow> regex" where
  "lits [] r = r"
| "lits (c # cs) r = Seq (Lit c) (lits cs r)"


section \<open>The request classifier\<close>

text \<open>\<^verbatim>\<open>/\.php(?:$|[\/?])/i\<close>\<close>

definition php_regex :: regex where
  "php_regex = lits ''.php'' (Alt Eol (Cls ''/?''))"

definition isPhpPath :: "string \<Rightarrow> bool" where
  "isPhpPath path = regex_test php_regex path"

text \<open>\<^verbatim>\<open>/^\/_php_log/i\<close>\<close>

definition api_regex :: regex where
  "api_regex = Seq Bol (lits ''/_php_log'' Eps)"

definition isAPIPath :: "string \<Rightarrow> bool" where
  "isAPIPath path = regex_test api_regex path"

text \<open>
  The classifier as the specification words it: the path contains \<^verbatim>\<open>.php\<close>, in any mix
  of cases, and the occurrence is followed by the end of the path, a slash or a question
  mark.
\<close>

definition php_occurrence :: "string \<Rightarrow> bool" where
  "php_occurrence p \<longleftrightarrow>
     (\<exists>pre b c d rest. p = pre @ [CHR ''.'', b, c, d] @ rest
        \<and> b \<in> {CHR ''p'', CHR ''P''} \<and> c \<in> {CHR ''h'', CHR ''H''} \<and> d \<in> {CHR ''p'', CHR ''P''}
        \<and> (rest = [] \<or> hd rest = CHR ''/'' \<or> hd rest = CHR ''?''))"


section \<open>The analytics client\<close>

subsection \<open>Columns and rows of a response body\<close>

text \<open>\<^verbatim>\<open>c && typeof c.name === 'string'\<close>\<close>

definition has_string_name :: "jsv \<Rightarrow> bool" where
  "has_string_name c \<longleftrightarrow> truthy c \<and> typeof (get_prop c ''name'') = TString"

definition is_string :: "jsv \<Rightarrow> bool" where
  "is_string c \<longleftrightarrow> typeof c = TString"

definition extractCols :: "jsv \<Rightarrow> string list" where
  "extractCols body =
     (if \<not> truthy body \<or> typeof body \<noteq> TObject then []
      else
        let schemaCols = get_prop (get_prop (get_prop body ''meta'') ''schema'') ''columns'' in
        if isArray schemaCols \<and> list_all has_string_name (elems schemaCols)
        then map (\<lambda>c. string_value (get_prop c ''name'')) (elems schemaCols)
        else
          let metaCols = get_prop (get_prop body ''meta'') ''columns'' in
          if isArray metaCols \<and> list_all is_string (elems metaCols)
          then map string_value (elems metaCols)
          else if isArray (get_prop body ''columns'')
                  \<and> list_all is_string (elems (get_prop body ''columns''))
          then map string_value (elems (get_prop body ''columns''))
          else [])"

definition extractRows :: "jsv \<Rightarrow> jsv list" where
  "extractRows body =
     (if \<not> truthy body \<or> typeof body \<noteq> TObject then []
      else if isArray (get_prop body ''data'') then elems (get_prop body ''data'')
      else if isArray (get_prop body ''rows'') then elems (get_prop body ''rows'')
      else if isArray (get_prop body ''result'') then elems (get_prop body ''result'')
      else if isArray (get_prop body ''items'') then elems (get_prop body ''items'')
      else [])"

subsection \<open>Rows into objects\<close>

text \<open>
  The loop \<^verbatim>\<open>for (let i = 0; i < cols.length; i++) obj[cols[i]] = rowArr[i]\<close>, from
  the index \<open>i\<close> and the object built so far. Reading \<^verbatim>\<open>rowArr[i]\<close> raises when the
  row is \<^verbatim>\<open>null\<close>.
\<close>

function zip_loop ::
  "string list \<Rightarrow> jsv \<Rightarrow> nat \<Rightarrow> (string \<times> jsv) list \<Rightarrow> js_error + (string \<times> jsv) list" where
  "zip_loop cols rowArr i obj =
     (if i < length cols then
        (case get_index rowArr i of
           Inl err \<Rightarrow> Inl err
         | Inr v \<Rightarrow> zip_loop cols rowArr (Suc i) (assign_prop obj (cols ! i) v))
      else Inr obj)"
  by pat_completeness auto
termination
  by (relation "measure (\<lambda>(cols, rowArr, i, obj). length cols - i)") auto

definition zip_row :: "string list \<Rightarrow> jsv \<Rightarrow> js_error + jsv" where
  "zip_row cols rowArr =
     (case zip_loop cols rowArr 0 [] of Inl err \<Rightarrow> Inl err | Inr obj \<Rightarrow> Inr (JObj obj))"

text \<open>\<^verbatim>\<open>rows.map(f)\<close> for a callback that may raise: the first error ends the map.\<close>

fun map_rows :: "(jsv \<Rightarrow> js_error + jsv) \<Rightarrow> jsv list \<Rightarrow> js_error + jsv list" where
  "map_rows f [] = Inr []"
| "map_rows f (r # rs) =
     (case f r of
        Inl err \<Rightarrow> Inl err
      | Inr x \<Rightarrow> (case map_rows f rs of Inl err \<Rightarrow> Inl err | Inr xs \<Rightarrow> Inr (x # xs)))"

record ae_result =
  count :: nat
  items :: "jsv list"

text \<open>
  The second half of \<^verbatim>\<open>queryAnalyticsEngine\<close>, from the parsed body to the result.
  In its last two branches \<^verbatim>\<open>items\<close> is \<^verbatim>\<open>rows\<close>: an array is never falsy, so
  \<^verbatim>\<open>rows || []\<close> is \<^verbatim>\<open>rows\<close>.
\<close>

definition normalize :: "jsv \<Rightarrow> js_error + ae_result" where
  "normalize body =
     (let cols = extractCols body; rows = extractRows body in
      if length cols > 0 \<and> length rows > 0 \<and> isArray (rows ! 0) then
        (case map_rows (zip_row cols) rows of
           Inl err \<Rightarrow> Inl err
         | Inr its \<Rightarrow> Inr \<lparr>count = length its, items = its\<rparr>)
      else if length rows > 0 \<and> typeof (rows ! 0) = TObject then
        Inr \<lparr>count = length rows, items = rows\<rparr>
      else Inr \<lparr>count = length rows, items = rows\<rparr>)"

subsection \<open>The query\<close>

text \<open>
  What the SQL endpoint answers: a status, and what the two ways of reading the body give.
  \<^verbatim>\<open>res.text()\<close> and \<^verbatim>\<open>res.json()\<close> are promises that may reject; \<^verbatim>\<open>res.json()\<close>
  rejects with a SyntaxError when the body is not JSON.
\<close>

record upstream_response =
  up_status :: nat
  up_text :: "js_error + string"
  up_json :: "js_error + jsv"

definition up_ok :: "upstream_response \<Rightarrow> bool" where
  "up_ok res \<longleftrightarrow> 200 \<le> up_status res \<and> up_status res \<le> 299"

record ae_request =
  ae_url :: string
  ae_authorization :: string
  ae_content_type :: string
  ae_body :: string

definition ae_request_for :: "string \<Rightarrow> string \<Rightarrow> string \<Rightarrow> ae_request" where
  "ae_request_for accountId apiToken sql =
     \<lparr>ae_url = ''https://api.cloudflare.com/client/v4/accounts/'' @ accountId
                 @ ''/analytics_engine/sql'',
      ae_authorization = ''Bearer '' @ apiToken,
      ae_content_type = ''text/plain'',
      ae_body = sql\<rparr>"

text \<open>\<^verbatim>\<open>await res.text().catch(() => '')\<close>\<close>

definition text_or_empty :: "upstream_response \<Rightarrow> string" where
  "text_or_empty res = (case up_text res of Inl err \<Rightarrow> [] | Inr txt \<Rightarrow> txt)"

text \<open>
  \<open>api\<close> is the network: what \<^verbatim>\<open>fetch\<close> gives for the request, an error when the
  transport fails.
\<close>

definition queryAnalyticsEngine ::
  "(ae_request \<Rightarrow> js_error + upstream_response) \<Rightarrow> string \<Rightarrow> string \<Rightarrow> string
     \<Rightarrow> js_error + ae_result" where
  "queryAnalyticsEngine api accountId apiToken sql =
     (case api (ae_request_for accountId apiToken sql) of
        Inl err \<Rightarrow> Inl err
      | Inr res \<Rightarrow>
          if \<not> up_ok res then
            Inl (Error (''Analytics API error '' @ decimal (up_status res) @ '': ''
                        @ text_or_empty res))
          else
            normalize (case up_json res of Inl err \<Rightarrow> JObj [] | Inr body \<Rightarrow> body))"


section \<open>The worker\<close>

text \<open>
  \<^verbatim>\<open>index.ts\<close> holds the handler twice, an earlier version and a later one. The later
  one is modelled here: it has the reporting paths, the bearer credential and the cache.
\<close>

subsection \<open>Requests, responses and the world around the worker\<close>

text \<open>
  Of the inbound request the handler reads the host and the path of its URL, two headers
  (\<^verbatim>\<open>headers.get\<close> gives \<^verbatim>\<open>null\<close>, here \<open>None\<close>, for a header that is absent) and
  the \<^verbatim>\<open>cf\<close> property, \<^verbatim>\<open>undefined\<close> when the runtime supplies none.
\<close>

record request =
  hostname :: string
  url_pathname :: string
  user_agent :: "string option"
  authorization :: "string option"
  cf :: jsv

record env =
  ACCOUNT_ID :: string
  ANALYTICS_API_TOKEN :: string
  QUERY_TOKEN :: string

text \<open>
  A response: its status, the headers the handler sets, and its body. \<open>JsonText v\<close> is
  the text \<^verbatim>\<open>JSON.stringify(v, null, 2)\<close>.
\<close>

datatype body = Text string | JsonText jsv | NoBody

record response =
  status :: nat
  headers :: "(string \<times> string) list"
  body :: body

record datapoint =
  blobs :: "string list"
  doubles :: "int list"
  indexes :: "string list"

text \<open>
  What \<^verbatim>\<open>writeDataPoint\<close> does with a record: take it, raise, or return a promise that
  rejects. Which of them may depend on the record.
\<close>

datatype sink_behaviour = SinkAccepts | SinkThrows js_error | SinkRejects js_error

text \<open>
  A value of the key-value store, as \<^verbatim>\<open>get(key, { type: 'json' })\<close> sees it: text that
  parses to a value, or text on which the read raises the given error.
\<close>

datatype kv_value = Parses jsv | Unparseable js_error

text \<open>
  The world has the behaviour of the collaborators (the sink, the identifier generator, the
  SQL endpoint, the two destinations of forwarded traffic, the store) and the trace of what
  the handler did to them: the records handed to \<^verbatim>\<open>writeDataPoint\<close>, the promises handed
  to \<^verbatim>\<open>ctx.waitUntil\<close>, the lines of \<^verbatim>\<open>console.error\<close>, the queries posted and the
  writes to the store. The store holds the entries that have not expired, each with the
  time to live it was written with; expiry is the store's own. The handler may pass
  \<^verbatim>\<open>undefined\<close> to \<^verbatim>\<open>put\<close>, which is outside the contract of the store:
  \<open>kv_put_undefined\<close> says whether the store then raises or what it holds afterwards.
\<close>

record world =
  sink :: "datapoint \<Rightarrow> sink_behaviour"
  random_uuid :: "nat \<Rightarrow> string"
  api :: "ae_request \<Rightarrow> js_error + upstream_response"
  origin :: "request \<Rightarrow> js_error + response"
  service :: "request \<Rightarrow> js_error + response"
  kv_put_undefined :: "js_error + kv_value"
  kv :: "string \<rightharpoonup> kv_value \<times> nat"
  uuids_drawn :: nat
  datapoints :: "datapoint list"
  background :: nat
  console :: "(string \<times> js_error) list"
  api_calls :: "ae_request list"
  kv_puts :: "(string \<times> jsv \<times> nat) list"

definition console_error :: "string \<Rightarrow> js_error \<Rightarrow> world \<Rightarrow> world" where
  "console_error label err w = w\<lparr>console := console w @ [(label, err)]\<rparr>"

text \<open>\<^verbatim>\<open>crypto.randomUUID()\<close>: the next identifier of the generator.\<close>

definition randomUUID :: "world \<Rightarrow> string \<times> world" where
  "randomUUID w = (random_uuid w (uuids_drawn w), w\<lparr>uuids_drawn := Suc (uuids_drawn w)\<rparr>)"

datatype promise = Fulfilled | Rejected js_error

definition writeDataPoint :: "datapoint \<Rightarrow> world \<Rightarrow> (js_error + promise) \<times> world" where
  "writeDataPoint dp w =
     (case sink w dp of
        SinkAccepts \<Rightarrow> Inr Fulfilled
      | SinkThrows err \<Rightarrow> Inl err
      | SinkRejects err \<Rightarrow> Inr (Rejected err),
      w\<lparr>datapoints := datapoints w @ [dp]\<rparr>)"

definition waitUntil :: "world \<Rightarrow> world" where
  "waitUntil w = w\<lparr>background := Suc (background w)\<rparr>"

definition kv_get_json :: "world \<Rightarrow> string \<Rightarrow> js_error + jsv" where
  "kv_get_json w key =
     (case kv w key of
        None \<Rightarrow> Inr JNull
      | Some (Parses v, ttl) \<Rightarrow> Inr v
      | Some (Unparseable err, ttl) \<Rightarrow> Inl err)"

text \<open>
  \<^verbatim>\<open>put(key, JSON.stringify(v), { expirationTtl: ttl })\<close>. \<^verbatim>\<open>JSON.stringify\<close> gives a
  text that parses back to \<open>v\<close>, and \<^verbatim>\<open>undefined\<close> for \<^verbatim>\<open>undefined\<close>.
\<close>

definition kv_put :: "string \<Rightarrow> jsv \<Rightarrow> nat \<Rightarrow> world \<Rightarrow> (js_error + unit) \<times> world" where
  "kv_put key v ttl w =
     (let w1 = w\<lparr>kv_puts := kv_puts w @ [(key, v, ttl)]\<rparr> in
      if v = JUndefined then
        (case kv_put_undefined w of
           Inl err \<Rightarrow> (Inl err, w1)
         | Inr held \<Rightarrow> (Inr (), w1\<lparr>kv := (kv w1)(key \<mapsto> (held, ttl))\<rparr>))
      else (Inr (), w1\<lparr>kv := (kv w1)(key \<mapsto> (Parses v, ttl))\<rparr>))"

text \<open>\<^verbatim>\<open>new Response(JSON.stringify(v, null, 2), ...)\<close>: no body for \<^verbatim>\<open>undefined\<close>.\<close>

definition json_body :: "jsv \<Rightarrow> body" where
  "json_body v = (if v = JUndefined then NoBody else JsonText v)"

subsection \<open>Telemetry\<close>

record cf_info =
  country :: string
  region :: string
  asn :: string

text \<open>
  \<^verbatim>\<open>typeof x === 'string' ? x : d\<close> is the case distinction on the string values;
  \<^verbatim>\<open>x != null\<close> holds of every value but \<^verbatim>\<open>null\<close> and \<^verbatim>\<open>undefined\<close>.
  \<^verbatim>\<open>String(cf.asn)\<close> may raise, and then the function raises.
\<close>

definition extractCfInfo :: "request \<Rightarrow> js_error + cf_info" where
  "extractCfInfo req =
     (let cf = (if truthy (cf req) then cf req else JObj []);
          country = (case get_prop cf ''country'' of JStr s \<Rightarrow> s | other \<Rightarrow> ''ZZ'');
          region = (case get_prop cf ''region'' of JStr s \<Rightarrow> s | other \<Rightarrow> [])
      in case (if get_prop cf ''asn'' \<noteq> JNull \<and> get_prop cf ''asn'' \<noteq> JUndefined
               then js_String (get_prop cf ''asn'') else Inr ''0'') of
           Inl err \<Rightarrow> Inl err
         | Inr a \<Rightarrow> Inr \<lparr>country = country, region = region, asn = a\<rparr>)"

text \<open>\<^verbatim>\<open>url.pathname || '/'\<close>\<close>

definition pathname_of :: "request \<Rightarrow> string" where
  "pathname_of req = (if url_pathname req = [] then ''/'' else url_pathname req)"

text \<open>
  The block \<^verbatim>\<open>if (isPhpPath(pathname)) { try { ... } catch (err) { ... } }\<close>. An
  error that \<^verbatim>\<open>extractCfInfo\<close> raises goes to the \<^verbatim>\<open>catch\<close> of the block before
  anything else is done. The arguments of \<^verbatim>\<open>writeDataPoint\<close> are evaluated before the
  call; an error the call raises goes to the same \<^verbatim>\<open>catch\<close>, a rejection of the
  promise to the handler that \<^verbatim>\<open>.catch\<close> put on it.
\<close>

definition log_php_attempt :: "request \<Rightarrow> world \<Rightarrow> world" where
  "log_php_attempt req w =
     (let pathname = pathname_of req in
      if isPhpPath pathname then
        (case extractCfInfo req of
           Inl err \<Rightarrow> console_error ''Failed to log .php attempt:'' err w
         | Inr info \<Rightarrow>
             (let uaHeader = (case user_agent req of None \<Rightarrow> [] | Some h \<Rightarrow> h);
                  ua = take 140 uaHeader;
                  (uuid, w1) = randomUUID w
              in case writeDataPoint
                        \<lparr>blobs = [pathname, country info, region info, ua, asn info],
                         doubles = [1],
                         indexes = [uuid]\<rparr> w1 of
                   (Inl err, w2) \<Rightarrow> console_error ''Failed to log .php attempt:'' err w2
                 | (Inr Fulfilled, w2) \<Rightarrow> waitUntil w2
                 | (Inr (Rejected err), w2) \<Rightarrow>
                     waitUntil (console_error ''AE writeDataPoint failed:'' err w2)))
      else w)"

subsection \<open>The reporting endpoints\<close>

text \<open>The credential of the request: what follows \<^verbatim>\<open>Bearer \<close> in the header.\<close>

definition bearer_token :: "request \<Rightarrow> string" where
  "bearer_token req =
     (let authHeader = (case authorization req of None \<Rightarrow> [] | Some h \<Rightarrow> h) in
      if prefix ''Bearer '' authHeader then drop 7 authHeader else [])"

definition unauthorized :: response where
  "unauthorized = \<lparr>status = 401, headers = [], body = Text (''Unauthorized'' @ [CHR 0x0A])\<rparr>"

definition api_not_found :: response where
  "api_not_found = \<lparr>status = 404, headers = [], body = Text (''API not found'' @ [CHR 0x0A])\<rparr>"

text \<open>The two queries, as the template literals of the source spell them.\<close>

definition tabs :: "nat \<Rightarrow> string" where
  "tabs n = replicate n (CHR 0x09)"

definition sql_last :: string where
  "sql_last = join_with [CHR 0x0A]
     [[],
      tabs 3 @ ''  SELECT'',
      tabs 3 @ ''    timestamp,'',
      tabs 3 @ ''    blob1 AS path,'',
      tabs 3 @ ''    blob2 AS country,'',
      tabs 3 @ ''    blob3 AS region,'',
      tabs 3 @ ''    blob4 AS ua,'',
      tabs 3 @ ''    blob5 AS asn'',
      tabs 3 @ ''  FROM PHP_LOG'',
      tabs 3 @ ''  WHERE timestamp >= NOW() - INTERVAL '1' DAY'',
      tabs 3 @ ''  ORDER BY timestamp DESC'',
      tabs 3 @ ''  LIMIT 20'',
      tabs 3]"

definition sql_top :: string where
  "sql_top = join_with [CHR 0x0A]
     [[],
      ''        SELECT'',
      ''          blob1 AS path,'',
      ''          count() AS hits'',
      ''        FROM PHP_LOG'',
      ''        WHERE timestamp >= NOW() - INTERVAL '1' MONTH'',
      tabs 4 @ ''GROUP BY path'',
      ''        ORDER BY hits DESC'',
      ''        LIMIT 20'',
      ''      '']"

text \<open>The \<^verbatim>\<open>switch (pathname)\<close>: the query of a path, \<open>None\<close> for the default case.\<close>

definition api_sql :: "string \<Rightarrow> string option" where
  "api_sql pathname =
     (if pathname = ''/_php_log_last'' then Some sql_last
      else if pathname = ''/_php_log'' \<or> pathname = ''/_php_log_top'' then Some sql_top
      else None)"

definition CACHE_TTL_SECONDS :: nat where
  "CACHE_TTL_SECONDS = 60"

definition json_headers :: "string \<Rightarrow> (string \<times> string) list" where
  "json_headers x_cache =
     [(''content-type'', ''application/json; charset=utf-8''), (''x-cache'', x_cache)]"

text \<open>The body of the \<^verbatim>\<open>try\<close>: the query, the write to the store, the response.\<close>

definition query_upstream ::
  "env \<Rightarrow> string \<Rightarrow> string \<Rightarrow> world \<Rightarrow> (js_error + response) \<times> world" where
  "query_upstream e pathname sql w =
     (let rq = ae_request_for (ACCOUNT_ID e) (ANALYTICS_API_TOKEN e) sql;
          w1 = w\<lparr>api_calls := api_calls w @ [rq]\<rparr>
      in case api w rq of
           Inl err \<Rightarrow> (Inl err, w1)
         | Inr res \<Rightarrow>
             if \<not> up_ok res then
               (Inl (Error (''AE API: '' @ decimal (up_status res) @ '': ''
                            @ text_or_empty res)), w1)
             else
               (case up_json res of
                  Inl err \<Rightarrow> (Inl err, w1)
                | Inr result \<Rightarrow>
                    (case get_member result ''data'' of
                       Inl err \<Rightarrow> (Inl err, w1)
                     | Inr data \<Rightarrow>
                         (case kv_put pathname data CACHE_TTL_SECONDS w1 of
                            (Inl err, w2) \<Rightarrow> (Inl err, w2)
                          | (Inr u, w2) \<Rightarrow>
                              (Inr \<lparr>status = 200, headers = json_headers ''MISS'',
                                    body = json_body data\<rparr>, w2)))))"

text \<open>
  The block \<^verbatim>\<open>if (sql !== '') { ... }\<close>: the read of the store, outside the
  \<^verbatim>\<open>try\<close>, then the \<^verbatim>\<open>try\<close> and its \<^verbatim>\<open>catch\<close>.
\<close>

definition cached_query ::
  "env \<Rightarrow> string \<Rightarrow> string \<Rightarrow> world \<Rightarrow> (js_error + response) \<times> world" where
  "cached_query e pathname sql w =
     (case kv_get_json w pathname of
        Inl err \<Rightarrow> (Inl err, w)
      | Inr cachedResponse \<Rightarrow>
          if truthy cachedResponse then
            (Inr \<lparr>status = 200, headers = json_headers ''HIT'',
                  body = json_body cachedResponse\<rparr>, w)
          else
            (case query_upstream e pathname sql w of
               (Inl err, w') \<Rightarrow>
                 (Inr \<lparr>status = 500, headers = [],
                       body = Text (error_to_string err @ [CHR 0x0A])\<rparr>, w')
             | (Inr resp, w') \<Rightarrow> (Inr resp, w')))"

subsection \<open>Forwarding and the handler\<close>

definition forward :: "request \<Rightarrow> world \<Rightarrow> (js_error + response) \<times> world" where
  "forward req w =
     (if hostname req = ''<YOUR_OTHER_WORKER_DOMAIN>'' then (service w req, w)
      else (origin w req, w))"

text \<open>From the \<^verbatim>\<open>switch (pathname)\<close> on: the routing of a reporting path.\<close>

definition api_dispatch ::
  "env \<Rightarrow> request \<Rightarrow> world \<Rightarrow> (js_error + response) \<times> world" where
  "api_dispatch e req w =
     (case api_sql (pathname_of req) of
        None \<Rightarrow> (Inr api_not_found, w)
      | Some sql \<Rightarrow>
          if sql \<noteq> [] then cached_query e (pathname_of req) sql w else forward req w)"

text \<open>The handler after the telemetry block.\<close>

definition respond :: "env \<Rightarrow> request \<Rightarrow> world \<Rightarrow> (js_error + response) \<times> world" where
  "respond e req w =
     (if isAPIPath (pathname_of req) then
        (if QUERY_TOKEN e \<noteq> [] \<and> bearer_token req \<noteq> QUERY_TOKEN e
         then (Inr unauthorized, w)
         else api_dispatch e req w)
      else forward req w)"

definition fetch :: "env \<Rightarrow> request \<Rightarrow> world \<Rightarrow> (js_error + response) \<times> world" where
  "fetch e req w = respond e req (log_php_attempt req w)"


section \<open>Notions for stating the properties\<close>

text \<open>
  The record that the telemetry block hands to \<^verbatim>\<open>writeDataPoint\<close> for a request and
  the metadata extracted from it, in a world whose generator gives the next identifier.
\<close>

definition access_event :: "request \<Rightarrow> cf_info \<Rightarrow> world \<Rightarrow> datapoint" where
  "access_event req info w =
     \<lparr>blobs = [pathname_of req, country info, region info,
               take 140 (case user_agent req of None \<Rightarrow> [] | Some h \<Rightarrow> h),
               asn info],
      doubles = [1],
      indexes = [random_uuid w (uuids_drawn w)]\<rparr>"

text \<open>
  A request to a supported reporting path that passes the authorization check, with the
  query of the path; and a read of the store that the handler takes for a miss: no entry
  under the key, or an entry whose payload is falsy.
\<close>

definition served :: "env \<Rightarrow> request \<Rightarrow> string \<Rightarrow> bool" where
  "served e req sql \<longleftrightarrow>
     api_sql (pathname_of req) = Some sql
     \<and> (QUERY_TOKEN e = [] \<or> bearer_token req = QUERY_TOKEN e)"

definition cache_miss :: "world \<Rightarrow> string \<Rightarrow> bool" where
  "cache_miss w key \<longleftrightarrow>
     kv w key = None \<or> (\<exists>v ttl. kv w key = Some (Parses v, ttl) \<and> \<not> truthy v)"

text \<open>The cell of a row under the column of index \<open>i\<close>.\<close>

definition cell :: "jsv list \<Rightarrow> nat \<Rightarrow> jsv" where
  "cell xs i = (if i < length xs then xs ! i else JUndefined)"

text \<open>Concrete configurations, requests and worlds, on which the properties are run.\<close>

definition example_env :: env where
  "example_env =
     \<lparr>ACCOUNT_ID = ''acct'', ANALYTICS_API_TOKEN = ''api-token'', QUERY_TOKEN = ''secret''\<rparr>"

definition open_env :: env where
  "open_env = \<lparr>ACCOUNT_ID = ''acct'', ANALYTICS_API_TOKEN = ''api-token'', QUERY_TOKEN = []\<rparr>"

definition example_rows :: jsv where
  "example_rows = JArr [JObj [(''path'', JStr ''/wp-login.php''), (''hits'', JNum ''7'')]]"

definition origin_response :: response where
  "origin_response = \<lparr>status = 200, headers = [], body = Text ''origin''\<rparr>"

definition quiet_world :: world where
  "quiet_world =
     \<lparr>sink = (\<lambda>dp. SinkAccepts),
      random_uuid = (\<lambda>n. ''uuid-'' @ decimal n),
      api = (\<lambda>rq. Inr \<lparr>up_status = 200, up_text = Inr ''{}'',
                          up_json = Inr (JObj [(''data'', example_rows)])\<rparr>),
      origin = (\<lambda>r. Inr origin_response),
      service = (\<lambda>r. Inr \<lparr>status = 200, headers = [], body = Text ''service''\<rparr>),
      kv_put_undefined = Inl (TypeError ''not a string''),
      kv = Map.empty,
      uuids_drawn = 0,
      datapoints = [],
      background = 0,
      console = [],
      api_calls = [],
      kv_puts = []\<rparr>"

definition miss_response :: response where
  "miss_response = \<lparr>status = 200, headers = json_headers ''MISS'', body = JsonText example_rows\<rparr>"


definition failing_world :: world where
  "failing_world =
     quiet_world\<lparr>api := (\<lambda>rq. Inr \<lparr>up_status = 500, up_text = Inr ''boom'',
                                       up_json = Inl (SyntaxError ''Unexpected token b'')\<rparr>)\<rparr>"

definition malformed_world :: world where
  "malformed_world =
     quiet_world\<lparr>api := (\<lambda>rq. Inr \<lparr>up_status = 200, up_text = Inr ''<html>'',
                                       up_json = Inl (SyntaxError ''Unexpected token <'')\<rparr>)\<rparr>"

definition php_request :: request where
  "php_request =
     \<lparr>hostname = ''example.com'', url_pathname = ''/wp-login.php'',
      user_agent = Some ''curl/8.0'', authorization = None,
      cf = JObj [(''country'', JStr ''DE''), (''asn'', JNum ''13335'')]\<rparr>"

definition report_request :: "string \<Rightarrow> string option \<Rightarrow> request" where
  "report_request path auth =
     \<lparr>hostname = ''example.com'', url_pathname = path,
      user_agent = None, authorization = auth, cf = JUndefined\<rparr>"


section \<open>Properties of the classifier\<close>

declare decimal_onto.simps [simp del]
declare zip_loop.simps [simp del]

lemma canonicalize_eq_iff:
  "canonicalize c = d \<longleftrightarrow>
     (if 97 \<le> (of_char c :: nat) \<and> (of_char c :: nat) \<le> 122
      then of_char c - 32 = (of_char d :: nat) else c = d)"
proof (cases "97 \<le> (of_char c :: nat) \<and> (of_char c :: nat) \<le> 122")
  case True
  have "char_of (of_char c - 32 :: nat) = d \<longleftrightarrow>
        (of_char (char_of (of_char c - 32 :: nat)) :: nat) = of_char d"
    by (simp only: of_char_eq_iff)
  also have "\<dots> \<longleftrightarrow> (of_char c - 32 :: nat) = of_char d"
  proof -
    have "(of_char c :: nat) < 256" by simp
    then have "(of_char c - 32 :: nat) < 256" by arith
    then have "(of_char c - 32 :: nat) mod 256 = of_char c - 32" by (rule mod_less)
    then show ?thesis by simp
  qed
  finally show ?thesis using True by (simp add: canonicalize_def Let_def)
next
  case False
  then have "canonicalize c = c" by (auto simp: canonicalize_def Let_def)
  moreover have "(if 97 \<le> (of_char c :: nat) \<and> (of_char c :: nat) \<le> 122
      then of_char c - 32 = (of_char d :: nat) else c = d) \<longleftrightarrow> c = d"
    using False by (simp only: if_False)
  ultimately show ?thesis by simp
qed

lemma of_char_eq_nat: "(of_char c :: nat) = of_char d \<longleftrightarrow> c = d"
  by simp

lemma canon_dot: "canonicalize c = CHR ''.'' \<longleftrightarrow> c = CHR ''.''"
  using of_char_eq_nat [of c "CHR ''.''"]
  by (auto simp: canonicalize_eq_iff)

lemma canon_P: "canonicalize c = CHR ''P'' \<longleftrightarrow> c = CHR ''p'' \<or> c = CHR ''P''"
  using of_char_eq_nat [of c "CHR ''p''"] of_char_eq_nat [of c "CHR ''P''"]
  by (auto simp: canonicalize_eq_iff)

lemma canon_H: "canonicalize c = CHR ''H'' \<longleftrightarrow> c = CHR ''h'' \<or> c = CHR ''H''"
  using of_char_eq_nat [of c "CHR ''h''"] of_char_eq_nat [of c "CHR ''H''"]
  by (auto simp: canonicalize_eq_iff)

lemma canon_slash: "canonicalize c = CHR ''/'' \<longleftrightarrow> c = CHR ''/''"
  using of_char_eq_nat [of c "CHR ''/''"]
  by (auto simp: canonicalize_eq_iff)

lemma canon_qm: "canonicalize c = CHR ''?'' \<longleftrightarrow> c = CHR ''?''"
  using of_char_eq_nat [of c "CHR ''?''"]
  by (auto simp: canonicalize_eq_iff)

lemma canon_consts:
  "canonicalize (CHR ''.'') = CHR ''.''" "canonicalize (CHR ''p'') = CHR ''P''"
  "canonicalize (CHR ''h'') = CHR ''H''" "canonicalize (CHR ''/'') = CHR ''/''"
  "canonicalize (CHR ''?'') = CHR ''?''"
  by (simp_all add: canonicalize_eq_iff)

text \<open>A match of the pattern at position \<open>i\<close>, read off the matcher.\<close>

lemma rmatch_php_regex:
  "rmatch php_regex s i \<noteq> [] \<longleftrightarrow>
     i + 3 < length s \<and> s ! i = CHR ''.'' \<and> s ! (i + 1) \<in> {CHR ''p'', CHR ''P''}
     \<and> s ! (i + 2) \<in> {CHR ''h'', CHR ''H''} \<and> s ! (i + 3) \<in> {CHR ''p'', CHR ''P''}
     \<and> (i + 4 = length s \<or> (i + 4 < length s \<and> s ! (i + 4) \<in> {CHR ''/'', CHR ''?''}))"
  by (auto simp: php_regex_def canon_consts canon_dot canon_P canon_H canon_slash canon_qm
        numeral_eq_Suc)

lemma four_at:
  assumes "i + 3 < length s"
  shows "s = take i s @ [s ! i, s ! (i + 1), s ! (i + 2), s ! (i + 3)] @ drop (i + 4) s"
proof -
  have "drop i s = s ! i # drop (Suc i) s" using assms by (simp add: Cons_nth_drop_Suc)
  moreover have "drop (Suc i) s = s ! (i + 1) # drop (Suc (Suc i)) s"
    using assms by (simp add: Cons_nth_drop_Suc)
  moreover have "drop (Suc (Suc i)) s = s ! (i + 2) # drop (Suc (Suc (Suc i))) s"
    using assms by (simp add: Cons_nth_drop_Suc)
  moreover have "drop (Suc (Suc (Suc i))) s = s ! (i + 3) # drop (i + 4) s"
    using assms Cons_nth_drop_Suc [of "i + 3" s] by (simp add: numeral_eq_Suc)
  ultimately have "drop i s = [s ! i, s ! (i + 1), s ! (i + 2), s ! (i + 3)] @ drop (i + 4) s"
    by simp
  then show ?thesis by (metis append_take_drop_id)
qed

lemma regex_test_iff: "regex_test r s \<longleftrightarrow> (\<exists>i\<le>length s. rmatch r s i \<noteq> [])"
proof -
  have "set [0..<Suc (length s)] = {i. i \<le> length s}"
    by (auto simp del: upt_Suc)
  then show ?thesis
    unfolding regex_test_def list_ex_iff by blast
qed

lemma isPhpPath_imp_occurrence:
  assumes "isPhpPath p"
  shows "php_occurrence p"
proof -
  from assms obtain i where i: "rmatch php_regex p i \<noteq> []"
    by (auto simp: isPhpPath_def regex_test_iff)
  then have len: "i + 3 < length p" and m: "p ! i = CHR ''.''"
    "p ! (i + 1) \<in> {CHR ''p'', CHR ''P''}" "p ! (i + 2) \<in> {CHR ''h'', CHR ''H''}"
    "p ! (i + 3) \<in> {CHR ''p'', CHR ''P''}"
    and fin: "i + 4 = length p \<or> (i + 4 < length p \<and> p ! (i + 4) \<in> {CHR ''/'', CHR ''?''})"
    by (simp_all only: rmatch_php_regex)
  have split: "p = take i p @ [CHR ''.'', p ! (i + 1), p ! (i + 2), p ! (i + 3)] @ drop (i + 4) p"
    using four_at [OF len] m(1) by simp
  have "drop (i + 4) p = [] \<or> hd (drop (i + 4) p) = CHR ''/'' \<or> hd (drop (i + 4) p) = CHR ''?''"
    using fin by (auto simp: hd_drop_conv_nth)
  with split m show ?thesis unfolding php_occurrence_def by blast
qed

lemma occurrence_imp_isPhpPath:
  assumes "php_occurrence p"
  shows "isPhpPath p"
proof -
  from assms obtain pre b c d rest where p: "p = pre @ [CHR ''.'', b, c, d] @ rest"
    and b: "b \<in> {CHR ''p'', CHR ''P''}" and c: "c \<in> {CHR ''h'', CHR ''H''}"
    and d: "d \<in> {CHR ''p'', CHR ''P''}"
    and r: "rest = [] \<or> hd rest = CHR ''/'' \<or> hd rest = CHR ''?''"
    unfolding php_occurrence_def by blast
  let ?i = "length pre"
  have nth: "p ! ?i = CHR ''.''" "p ! (?i + 1) = b" "p ! (?i + 2) = c" "p ! (?i + 3) = d"
    by (simp_all add: p nth_append)
  have len: "?i + 3 < length p" by (simp add: p)
  have fin: "?i + 4 = length p \<or> (?i + 4 < length p \<and> p ! (?i + 4) \<in> {CHR ''/'', CHR ''?''})"
  proof (cases rest)
    case Nil
    then show ?thesis by (simp add: p)
  next
    case (Cons x xs)
    with r have "x = CHR ''/'' \<or> x = CHR ''?''" by simp
    moreover have "p ! (?i + 4) = x" by (simp add: p Cons nth_append)
    moreover have "?i + 4 < length p" by (simp add: p Cons)
    ultimately show ?thesis by auto
  qed
  have "rmatch php_regex p ?i \<noteq> []"
    unfolding rmatch_php_regex using nth len fin b c d by simp
  moreover have "?i \<le> length p" by (simp add: p)
  ultimately show ?thesis unfolding isPhpPath_def regex_test_iff by blast
qed

lemma isPhpPath_examples:
  "isPhpPath ''/admin.php''" "isPhpPath ''/a.php''" "isPhpPath ''/x.php/y''"
  "isPhpPath ''/a.php/b''" "isPhpPath ''/x.php?a=1''" "isPhpPath ''/a.php?x=1''"
  "\<not> isPhpPath ''/aphp''" "\<not> isPhpPath ''/phpfoo''" "\<not> isPhpPath ''/a.phps''"
  "isPhpPath ''/index.PHP/x''"
  by code_simp+

text \<open>
  C3. \<open>isPhpPath\<close> is a function from strings to truth values, defined on every string.
  It holds of a path exactly when the path contains \<^verbatim>\<open>.php\<close>, in any mix of upper and
  lower case, followed by the end of the path, by \<^verbatim>\<open>/\<close> or by \<^verbatim>\<open>?\<close>. It holds of
  \<^verbatim>\<open>/admin.php\<close>, \<^verbatim>\<open>/a.php\<close>, \<^verbatim>\<open>/x.php/y\<close>, \<^verbatim>\<open>/a.php/b\<close>, \<^verbatim>\<open>/x.php?a=1\<close> and
  \<^verbatim>\<open>/a.php?x=1\<close>, and not of \<^verbatim>\<open>/aphp\<close>, \<^verbatim>\<open>/phpfoo\<close> and \<^verbatim>\<open>/a.phps\<close>.
\<close>

theorem isPhpPath_iff_php_occurrence:
  "(isPhpPath p \<longleftrightarrow> php_occurrence p)
   \<and> isPhpPath ''/admin.php'' \<and> isPhpPath ''/a.php'' \<and> isPhpPath ''/x.php/y''
   \<and> isPhpPath ''/a.php/b'' \<and> isPhpPath ''/x.php?a=1'' \<and> isPhpPath ''/a.php?x=1''
   \<and> \<not> isPhpPath ''/aphp'' \<and> \<not> isPhpPath ''/phpfoo'' \<and> \<not> isPhpPath ''/a.phps''"
  using isPhpPath_imp_occurrence [of p] occurrence_imp_isPhpPath [of p] isPhpPath_examples
  by blast

theorem isPhpPath_iff_php_occurrence_witness:
  "isPhpPath ''/index.PHP/x'' \<and> php_occurrence ''/index.PHP/x''"
  using isPhpPath_iff_php_occurrence [of "''/index.PHP/x''"] isPhpPath_examples(10)
  by blast


section \<open>Properties of the telemetry block\<close>

lemma log_php_attempt_unfold:
  "log_php_attempt req w =
     (if isPhpPath (pathname_of req) then
        (case extractCfInfo req of
           Inl err \<Rightarrow> w\<lparr>console := console w @ [(''Failed to log .php attempt:'', err)]\<rparr>
         | Inr info \<Rightarrow>
             (case sink w (access_event req info w) of
                SinkAccepts \<Rightarrow>
                  w\<lparr>uuids_drawn := Suc (uuids_drawn w),
                    datapoints := datapoints w @ [access_event req info w],
                    background := Suc (background w)\<rparr>
              | SinkThrows err \<Rightarrow>
                  w\<lparr>uuids_drawn := Suc (uuids_drawn w),
                    datapoints := datapoints w @ [access_event req info w],
                    console := console w @ [(''Failed to log .php attempt:'', err)]\<rparr>
              | SinkRejects err \<Rightarrow>
                  w\<lparr>uuids_drawn := Suc (uuids_drawn w),
                    datapoints := datapoints w @ [access_event req info w],
                    console := console w @ [(''AE writeDataPoint failed:'', err)],
                    background := Suc (background w)\<rparr>))
      else w)"
  by (simp add: log_php_attempt_def Let_def randomUUID_def writeDataPoint_def console_error_def
        waitUntil_def access_event_def split: sink_behaviour.split sum.split)

lemma log_php_attempt_frame:
  "api (log_php_attempt req w) = api w"
  "origin (log_php_attempt req w) = origin w"
  "service (log_php_attempt req w) = service w"
  "kv (log_php_attempt req w) = kv w"
  "kv_put_undefined (log_php_attempt req w) = kv_put_undefined w"
  "api_calls (log_php_attempt req w) = api_calls w"
  "kv_puts (log_php_attempt req w) = kv_puts w"
  "random_uuid (log_php_attempt req w) = random_uuid w"
  by (simp_all add: log_php_attempt_unfold split: sink_behaviour.split sum.split)

lemma forward_frame:
  assumes "origin w' = origin w" "service w' = service w"
  shows "fst (forward req w') = fst (forward req w)"
  using assms by (simp add: forward_def)

lemma query_upstream_frame:
  assumes "api w' = api w" "kv_put_undefined w' = kv_put_undefined w"
  shows "fst (query_upstream e p sql w') = fst (query_upstream e p sql w)"
  using assms
  by (simp add: query_upstream_def Let_def kv_put_def split: sum.split prod.split)

lemma cached_query_frame:
  assumes "api w' = api w" "kv_put_undefined w' = kv_put_undefined w" "kv w' = kv w"
  shows "fst (cached_query e p sql w') = fst (cached_query e p sql w)"
proof -
  have g: "kv_get_json w' p = kv_get_json w p" using assms by (simp add: kv_get_json_def)
  have q: "fst (query_upstream e p sql w') = fst (query_upstream e p sql w)"
    using assms by (rule_tac query_upstream_frame) simp_all
  show ?thesis
    unfolding cached_query_def g using q
    by (auto split: sum.split prod.split)
qed

lemma respond_frame:
  assumes "api w' = api w" "kv_put_undefined w' = kv_put_undefined w" "kv w' = kv w"
    "origin w' = origin w" "service w' = service w"
  shows "fst (respond e req w') = fst (respond e req w)"
  using assms cached_query_frame [of w' w e "pathname_of req" _ ] forward_frame [of w' w req]
  by (auto simp: respond_def api_dispatch_def split: option.split)

lemma classified:
  "isPhpPath ''/wp-login.php''" "\<not> isAPIPath ''/wp-login.php''"
  "isAPIPath ''/_php_log_top''" "\<not> isPhpPath ''/_php_log_top''"
  "isAPIPath ''/_php_log_bogus''" "\<not> isPhpPath ''/_php_log_bogus''"
  by code_simp+

lemma digit_chars:
  "digit_char 0 = CHR ''0''" "digit_char 1 = CHR ''1''" "digit_char 2 = CHR ''2''"
  "digit_char 3 = CHR ''3''" "digit_char 4 = CHR ''4''" "digit_char 5 = CHR ''5''"
  "digit_char 6 = CHR ''6''" "digit_char 7 = CHR ''7''" "digit_char 8 = CHR ''8''"
  "digit_char 9 = CHR ''9''" "digit_char (Suc 0) = CHR ''1''"
  by (simp_all add: digit_char_def char_of_eq_iff)

lemma decimal_500: "decimal 500 = ''500''"
  by (simp add: decimal_def decimal_onto.simps digit_chars)

lemma decimal_0: "decimal 0 = ''0''"
  by (simp add: decimal_def decimal_onto.simps digit_chars)

lemma query_upstream_effects:
  "datapoints (snd (query_upstream e p sql w)) = datapoints w"
  "uuids_drawn (snd (query_upstream e p sql w)) = uuids_drawn w"
  "console (snd (query_upstream e p sql w)) = console w"
  "background (snd (query_upstream e p sql w)) = background w"
  "random_uuid (snd (query_upstream e p sql w)) = random_uuid w"
  by (simp_all add: query_upstream_def Let_def kv_put_def split: sum.split prod.split)

lemma cached_query_effects:
  "datapoints (snd (cached_query e p sql w)) = datapoints w"
  "uuids_drawn (snd (cached_query e p sql w)) = uuids_drawn w"
  "console (snd (cached_query e p sql w)) = console w"
  "background (snd (cached_query e p sql w)) = background w"
  "random_uuid (snd (cached_query e p sql w)) = random_uuid w"
  using query_upstream_effects [of e p sql w]
  by (auto simp: cached_query_def split: sum.split prod.split)

lemma respond_effects:
  "datapoints (snd (respond e req w)) = datapoints w"
  "uuids_drawn (snd (respond e req w)) = uuids_drawn w"
  "console (snd (respond e req w)) = console w"
  "background (snd (respond e req w)) = background w"
  "random_uuid (snd (respond e req w)) = random_uuid w"
  using cached_query_effects [of e "pathname_of req" _ w]
  by (auto simp: respond_def api_dispatch_def forward_def split: option.split)

text \<open>The metadata of a request, with the fallback of \<^verbatim>\<open>cf || {}\<close> resolved.\<close>

lemma get_prop_falsy: "\<not> truthy v \<Longrightarrow> get_prop v k = JUndefined"
  by (cases v) simp_all

lemma get_prop_cf: "get_prop (if truthy v then v else JObj []) k = get_prop v k"
  by (simp add: get_prop_falsy)

lemma extractCfInfo_eq:
  "extractCfInfo req =
     (case (case get_prop (cf req) ''asn'' of
              JUndefined \<Rightarrow> Inr ''0'' | JNull \<Rightarrow> Inr ''0'' | v \<Rightarrow> js_String v) of
        Inl err \<Rightarrow> Inl err
      | Inr a \<Rightarrow>
          Inr \<lparr>country = (case get_prop (cf req) ''country'' of JStr s \<Rightarrow> s | _ \<Rightarrow> ''ZZ''),
               region = (case get_prop (cf req) ''region'' of JStr s \<Rightarrow> s | _ \<Rightarrow> []),
               asn = a\<rparr>)"
  unfolding extractCfInfo_def Let_def get_prop_cf
  by (cases "get_prop (cf req) ''asn''") simp_all

text \<open>Two requests for a flagged path whose metadata differ in the ASN.\<close>

lemma unprintable_asn:
  "extractCfInfo (php_request\<lparr>cf := JObj [(''asn'', JObj [(''toString'', JNum ''1'')])]\<rparr>) =
     Inl (TypeError ''Cannot convert object to primitive value'')"
  by (simp add: extractCfInfo_eq)

lemma boolean_asn:
  "extractCfInfo (php_request\<lparr>cf := JObj [(''country'', JStr ''DE''), (''asn'', JBool True)]\<rparr>) =
     Inr \<lparr>country = ''DE'', region = [], asn = ''true''\<rparr>"
  by (simp add: extractCfInfo_eq)

lemma numeric_asn:
  "extractCfInfo php_request = Inr \<lparr>country = ''DE'', region = [], asn = ''13335''\<rparr>"
  by (simp add: extractCfInfo_eq php_request_def)

lemma php_request_flagged:
  "isPhpPath (pathname_of (php_request\<lparr>cf := c\<rparr>))" "isPhpPath (pathname_of php_request)"
  "pathname_of (php_request\<lparr>cf := c\<rparr>) = ''/wp-login.php''"
  "pathname_of php_request = ''/wp-login.php''"
  "user_agent (php_request\<lparr>cf := c\<rparr>) = Some ''curl/8.0''"
  "user_agent php_request = Some ''curl/8.0''"
  "hostname (php_request\<lparr>cf := c\<rparr>) = ''example.com''" "hostname php_request = ''example.com''"
  by (simp_all add: pathname_of_def php_request_def classified)

lemma quiet_world_fields:
  "datapoints quiet_world = []" "console quiet_world = []" "uuids_drawn quiet_world = 0"
  "random_uuid quiet_world 0 = ''uuid-0''" "sink quiet_world dp = SinkAccepts"
  by (simp_all add: quiet_world_def decimal_0)

text \<open>
  C1. The handler returns what the code after the telemetry block returns by itself: the
  same response, or the same failure of its own, whatever the metadata of the request are
  and whatever the sink does with the record (take it, raise, or return a promise that
  rejects). The response under any sink is the response under a sink that accepts. An
  error raised while the metadata are constructed ends in the log under the label of the
  \<^verbatim>\<open>catch\<close> of the block, and no record is submitted; an error raised by the call of the
  sink ends in the log under the same label; a rejection of the promise ends in the log
  under the label of the handler put on the promise.
\<close>

theorem telemetry_never_alters_response:
  "fst (fetch e req w) = fst (respond e req w)
   \<and> fst (fetch e req (w\<lparr>sink := s\<rparr>)) = fst (fetch e req (w\<lparr>sink := (\<lambda>dp. SinkAccepts)\<rparr>))
   \<and> (isPhpPath (pathname_of req) \<and> extractCfInfo req = Inl err \<longrightarrow>
        console (snd (fetch e req w)) = console w @ [(''Failed to log .php attempt:'', err)]
        \<and> datapoints (snd (fetch e req w)) = datapoints w)
   \<and> (isPhpPath (pathname_of req) \<and> extractCfInfo req = Inr info
        \<and> sink w (access_event req info w) = SinkThrows err \<longrightarrow>
        console (snd (fetch e req w)) = console w @ [(''Failed to log .php attempt:'', err)])
   \<and> (isPhpPath (pathname_of req) \<and> extractCfInfo req = Inr info
        \<and> sink w (access_event req info w) = SinkRejects err \<longrightarrow>
        console (snd (fetch e req w)) = console w @ [(''AE writeDataPoint failed:'', err)])"
proof -
  have same: "fst (fetch e req v) = fst (respond e req v)" for v
    unfolding fetch_def by (rule respond_frame) (simp_all add: log_php_attempt_frame)
  have upd: "fst (respond e req (v\<lparr>sink := b\<rparr>)) = fst (respond e req v)" for v b
    by (rule respond_frame) simp_all
  have logs: "console (snd (fetch e req w)) = console (log_php_attempt req w)"
    and recs: "datapoints (snd (fetch e req w)) = datapoints (log_php_attempt req w)"
    unfolding fetch_def by (rule respond_effects)+
  show ?thesis
    by (simp add: same upd logs recs log_php_attempt_unfold)
qed

theorem telemetry_never_alters_response_witness:
  "fst (fetch example_env
          (php_request\<lparr>cf := JObj [(''asn'', JObj [(''toString'', JNum ''1'')])]\<rparr>) quiet_world)
     = Inr origin_response
   \<and> console (snd (fetch example_env
          (php_request\<lparr>cf := JObj [(''asn'', JObj [(''toString'', JNum ''1'')])]\<rparr>) quiet_world))
     = [(''Failed to log .php attempt:'', TypeError ''Cannot convert object to primitive value'')]
   \<and> datapoints (snd (fetch example_env
          (php_request\<lparr>cf := JObj [(''asn'', JObj [(''toString'', JNum ''1'')])]\<rparr>) quiet_world))
     = []
   \<and> fst (fetch example_env php_request
            (quiet_world\<lparr>sink := (\<lambda>dp. SinkThrows (Error ''sink down''))\<rparr>))
     = Inr origin_response
   \<and> console (snd (fetch example_env php_request
                      (quiet_world\<lparr>sink := (\<lambda>dp. SinkThrows (Error ''sink down''))\<rparr>)))
      = [(''Failed to log .php attempt:'', Error ''sink down'')]"
proof -
  let ?bad = "php_request\<lparr>cf := JObj [(''asn'', JObj [(''toString'', JNum ''1'')])]\<rparr>"
  let ?w = "quiet_world\<lparr>sink := (\<lambda>dp. SinkThrows (Error ''sink down''))\<rparr>"
  let ?info = "\<lparr>country = ''DE'', region = [], asn = ''13335''\<rparr>"
  note M = telemetry_never_alters_response
             [of example_env ?bad quiet_world _ "TypeError ''Cannot convert object to primitive value''"]
  note T = telemetry_never_alters_response
             [of example_env php_request ?w _ "Error ''sink down''" ?info]
  have r: "fst (respond example_env req v) = Inr origin_response"
    if "pathname_of req = ''/wp-login.php''" "hostname req = ''example.com''"
      "origin v = (\<lambda>r. Inr origin_response)" for req v
    using that by (simp add: respond_def forward_def classified)
  have r1: "fst (respond example_env ?bad quiet_world) = Inr origin_response"
    by (rule r) (simp_all add: php_request_flagged quiet_world_def)
  have r2: "fst (respond example_env php_request ?w) = Inr origin_response"
    by (rule r) (simp_all add: php_request_flagged quiet_world_def)
  from M have a1: "fst (fetch example_env ?bad quiet_world) = fst (respond example_env ?bad quiet_world)"
    by blast
  from M php_request_flagged(1) unprintable_asn
  have b1: "console (snd (fetch example_env ?bad quiet_world)) =
      console quiet_world @ [(''Failed to log .php attempt:'',
                              TypeError ''Cannot convert object to primitive value'')]
    \<and> datapoints (snd (fetch example_env ?bad quiet_world)) = datapoints quiet_world"
    by blast
  from T have a2: "fst (fetch example_env php_request ?w) = fst (respond example_env php_request ?w)"
    by blast
  have s: "sink ?w (access_event php_request ?info ?w) = SinkThrows (Error ''sink down'')"
    by simp
  from T php_request_flagged(2) numeric_asn s
  have b2: "console (snd (fetch example_env php_request ?w)) =
      console ?w @ [(''Failed to log .php attempt:'', Error ''sink down'')]"
    by blast
  have n: "console ?w = []" by (simp add: quiet_world_def)
  from b1 b2 show ?thesis
    by (simp only: a1 a2 r1 r2 n quiet_world_fields append_Nil simp_thms)
qed

text \<open>
  C4. A request whose path the classifier does not flag makes no call of
  \<^verbatim>\<open>writeDataPoint\<close>. A request whose path it flags makes exactly one call when the
  metadata can be constructed, and none when \<^verbatim>\<open>String(cf.asn)\<close> raises. The record of
  the call has the five blobs path, country, region, user agent and ASN in this order, the
  user agent cut to its first 140 characters, the one double 1, and as its one index the
  next identifier of the generator, which then moves on, so that the next flagged request
  gets the identifier after it. The country is that of the edge metadata when it is a
  string and \<^verbatim>\<open>ZZ\<close> otherwise; the region likewise, with the empty string. The ASN is
  \<^verbatim>\<open>0\<close> when the edge metadata has none or has \<^verbatim>\<open>null\<close>, and otherwise the value
  converted by \<^verbatim>\<open>String\<close>, of whatever type it is: a number gives its numeral, a string
  itself.
\<close>

theorem access_event_submitted:
  "datapoints (snd (fetch e req w)) =
     (if isPhpPath (pathname_of req) then
        (case (case get_prop (cf req) ''asn'' of
                 JUndefined \<Rightarrow> Inr ''0'' | JNull \<Rightarrow> Inr ''0'' | v \<Rightarrow> js_String v) of
           Inl err \<Rightarrow> datapoints w
         | Inr a \<Rightarrow>
             datapoints w @
               [\<lparr>blobs = [pathname_of req,
                          (case get_prop (cf req) ''country'' of JStr s \<Rightarrow> s | _ \<Rightarrow> ''ZZ''),
                          (case get_prop (cf req) ''region'' of JStr s \<Rightarrow> s | _ \<Rightarrow> []),
                          take 140 (case user_agent req of None \<Rightarrow> [] | Some h \<Rightarrow> h),
                          a],
                 doubles = [1],
                 indexes = [random_uuid w (uuids_drawn w)]\<rparr>])
      else datapoints w)
   \<and> length (take 140 (case user_agent req of None \<Rightarrow> [] | Some h \<Rightarrow> h)) \<le> 140
   \<and> uuids_drawn (snd (fetch e req w)) =
       (if isPhpPath (pathname_of req) then
          (case (case get_prop (cf req) ''asn'' of
                   JUndefined \<Rightarrow> Inr ''0'' | JNull \<Rightarrow> Inr ''0'' | v \<Rightarrow> js_String v) of
             Inl err \<Rightarrow> uuids_drawn w
           | Inr a \<Rightarrow> Suc (uuids_drawn w))
        else uuids_drawn w)
   \<and> random_uuid (snd (fetch e req w)) = random_uuid w
   \<and> js_String (JNum n) = Inr n \<and> js_String (JStr t) = Inr t"
proof -
  let ?asn = "case get_prop (cf req) ''asn'' of
                 JUndefined \<Rightarrow> Inr ''0'' | JNull \<Rightarrow> Inr ''0'' | v \<Rightarrow> js_String v"
  have d: "datapoints (snd (fetch e req w)) = datapoints (log_php_attempt req w)"
    and u: "uuids_drawn (snd (fetch e req w)) = uuids_drawn (log_php_attempt req w)"
    and g: "random_uuid (snd (fetch e req w)) = random_uuid w"
    unfolding fetch_def by (simp_all add: respond_effects log_php_attempt_frame)
  show ?thesis
  proof (cases ?asn)
    case (Inl err)
    then have x: "extractCfInfo req = Inl err" by (simp add: extractCfInfo_eq)
    show ?thesis
      unfolding d u g Inl by (simp add: log_php_attempt_unfold x)
  next
    case (Inr a)
    then have x: "extractCfInfo req =
        Inr \<lparr>country = (case get_prop (cf req) ''country'' of JStr s \<Rightarrow> s | _ \<Rightarrow> ''ZZ''),
             region = (case get_prop (cf req) ''region'' of JStr s \<Rightarrow> s | _ \<Rightarrow> []),
             asn = a\<rparr>"
      by (simp add: extractCfInfo_eq)
    show ?thesis
      unfolding d u g Inr
      by (simp add: log_php_attempt_unfold x access_event_def split: sink_behaviour.split)
  qed
qed

theorem access_event_submitted_witness:
  "datapoints (snd (fetch example_env php_request quiet_world)) =
     [\<lparr>blobs = [''/wp-login.php'', ''DE'', [], ''curl/8.0'', ''13335''],
       doubles = [1], indexes = [''uuid-0'']\<rparr>]
   \<and> uuids_drawn (snd (fetch example_env php_request quiet_world)) = 1
   \<and> datapoints (snd (fetch example_env
         (php_request\<lparr>cf := JObj [(''asn'', JNum ''1e+21'')]\<rparr>) quiet_world)) =
     [\<lparr>blobs = [''/wp-login.php'', ''ZZ'', [], ''curl/8.0'', ''1e+21''],
       doubles = [1], indexes = [''uuid-0'']\<rparr>]"
proof -
  let ?big = "php_request\<lparr>cf := JObj [(''asn'', JNum ''1e+21'')]\<rparr>"
  have c: "get_prop (cf php_request) ''country'' = JStr ''DE''"
    "get_prop (cf php_request) ''region'' = JUndefined"
    "get_prop (cf php_request) ''asn'' = JNum ''13335''"
    by (simp_all add: php_request_def)
  have b: "get_prop (cf ?big) ''country'' = JUndefined"
    "get_prop (cf ?big) ''region'' = JUndefined"
    "get_prop (cf ?big) ''asn'' = JNum ''1e+21''"
    by simp_all
  from access_event_submitted [of example_env php_request quiet_world]
  have 1: "datapoints (snd (fetch example_env php_request quiet_world)) =
      [\<lparr>blobs = [''/wp-login.php'', ''DE'', [], ''curl/8.0'', ''13335''],
        doubles = [1], indexes = [''uuid-0'']\<rparr>]
    \<and> uuids_drawn (snd (fetch example_env php_request quiet_world)) = 1"
    unfolding c by (simp add: php_request_flagged classified quiet_world_fields)
  from access_event_submitted [of example_env ?big quiet_world]
  have 2: "datapoints (snd (fetch example_env ?big quiet_world)) =
      [\<lparr>blobs = [''/wp-login.php'', ''ZZ'', [], ''curl/8.0'', ''1e+21''],
        doubles = [1], indexes = [''uuid-0'']\<rparr>]"
    unfolding b by (simp add: php_request_flagged classified quiet_world_fields)
  from 1 2 show ?thesis by (simp only: simp_thms)
qed

text \<open>
  An ASN of another type than a number or a string is not replaced by \<^verbatim>\<open>0\<close>: the
  boolean \<^verbatim>\<open>true\<close> is recorded as the string \<^verbatim>\<open>true\<close>. And a flagged request makes
  no call at all when its ASN is an object with a property \<^verbatim>\<open>toString\<close> of its own.
\<close>

theorem asn_of_wrong_type_counterexample:
  "datapoints (snd (fetch example_env
      (php_request\<lparr>cf := JObj [(''country'', JStr ''DE''), (''asn'', JBool True)]\<rparr>) quiet_world)) =
     [\<lparr>blobs = [''/wp-login.php'', ''DE'', [], ''curl/8.0'', ''true''],
       doubles = [1], indexes = [''uuid-0'']\<rparr>]
   \<and> isPhpPath (pathname_of
        (php_request\<lparr>cf := JObj [(''asn'', JObj [(''toString'', JNum ''1'')])]\<rparr>))
   \<and> datapoints (snd (fetch example_env
        (php_request\<lparr>cf := JObj [(''asn'', JObj [(''toString'', JNum ''1'')])]\<rparr>) quiet_world)) = []"
proof -
  let ?b = "php_request\<lparr>cf := JObj [(''country'', JStr ''DE''), (''asn'', JBool True)]\<rparr>"
  let ?o = "php_request\<lparr>cf := JObj [(''asn'', JObj [(''toString'', JNum ''1'')])]\<rparr>"
  have d: "datapoints (snd (fetch example_env req quiet_world))
             = datapoints (log_php_attempt req quiet_world)" for req
    unfolding fetch_def by (rule respond_effects)
  have 1: "datapoints (log_php_attempt ?b quiet_world) =
      [\<lparr>blobs = [''/wp-login.php'', ''DE'', [], ''curl/8.0'', ''true''],
        doubles = [1], indexes = [''uuid-0'']\<rparr>]"
    by (simp add: log_php_attempt_unfold php_request_flagged classified boolean_asn
          quiet_world_fields access_event_def)
  have 2: "datapoints (log_php_attempt ?o quiet_world) = []"
    by (simp add: log_php_attempt_unfold php_request_flagged classified unprintable_asn
          quiet_world_fields)
  show ?thesis
    by (simp only: d 1 2 php_request_flagged(1) simp_thms)
qed

section \<open>Properties of the reporting endpoints\<close>

lemma sql_nonempty: "sql_last \<noteq> []" "sql_top \<noteq> []"
  by (simp_all add: sql_last_def sql_top_def)

lemma sql_last_contents:
  "sublist ''INTERVAL '1' DAY'' sql_last" "sublist ''LIMIT 20'' sql_last"
  "sublist ''ORDER BY timestamp DESC'' sql_last"
  by code_simp+

lemma sql_top_contents:
  "sublist ''INTERVAL '1' MONTH'' sql_top" "sublist ''LIMIT 20'' sql_top"
  "sublist ''ORDER BY hits DESC'' sql_top" "sublist ''count() AS hits'' sql_top"
  by code_simp+

lemma bearer_token_None: "authorization req = None \<Longrightarrow> bearer_token req = []"
  by (simp add: bearer_token_def)

lemma bearer_token_no_prefix:
  "authorization req = Some h \<Longrightarrow> \<not> prefix ''Bearer '' h \<Longrightarrow> bearer_token req = []"
  by (simp add: bearer_token_def)

lemma bearer_token_prefix:
  "authorization req = Some (''Bearer '' @ t) \<Longrightarrow> bearer_token req = t"
  by (simp add: bearer_token_def)

lemma bearer_token_eq_iff:
  assumes "tok \<noteq> []"
  shows "bearer_token req = tok \<longleftrightarrow> authorization req = Some (''Bearer '' @ tok)"
proof
  assume b: "bearer_token req = tok"
  show "authorization req = Some (''Bearer '' @ tok)"
  proof (cases "authorization req")
    case None
    with b assms show ?thesis by (simp add: bearer_token_None)
  next
    case (Some h)
    show ?thesis
    proof (cases "prefix ''Bearer '' h")
      case False
      with Some b assms show ?thesis by (simp add: bearer_token_no_prefix)
    next
      case True
      then obtain t where h: "h = ''Bearer '' @ t" by (auto simp: prefix_def)
      with Some have "bearer_token req = t" by (simp add: bearer_token_prefix)
      with b h Some show ?thesis by simp
    qed
  qed
next
  assume "authorization req = Some (''Bearer '' @ tok)"
  then show "bearer_token req = tok" by (rule bearer_token_prefix)
qed

lemma log_php_attempt_unflagged: "\<not> isPhpPath (pathname_of req) \<Longrightarrow> log_php_attempt req w = w"
  by (simp add: log_php_attempt_unfold)

lemma report_request_fields:
  "pathname_of (report_request ''/_php_log_top'' a) = ''/_php_log_top''"
  "pathname_of (report_request ''/_php_log_bogus'' a) = ''/_php_log_bogus''"
  "authorization (report_request p a) = a"
  by (simp_all add: report_request_def pathname_of_def)

lemma query_upstream_quiet:
  "fst (query_upstream e ''/_php_log_top'' sql quiet_world) = Inr miss_response"
  by (simp add: query_upstream_def Let_def quiet_world_def up_ok_def kv_put_def json_body_def
        example_rows_def miss_response_def)

lemma cached_query_miss:
  assumes "kv_get_json w p = Inr v" and "\<not> truthy v"
    and "fst (query_upstream e p sql w) = Inr r"
  shows "fst (cached_query e p sql w) = Inr r"
  using assms by (cases "query_upstream e p sql w") (simp add: cached_query_def)

lemma api_dispatch_quiet:
  "fst (api_dispatch e (report_request ''/_php_log_top'' a) quiet_world) = Inr miss_response"
proof -
  have k: "kv_get_json quiet_world ''/_php_log_top'' = Inr JNull"
    by (simp add: kv_get_json_def quiet_world_def)
  have "fst (cached_query e ''/_php_log_top'' sql_top quiet_world) = Inr miss_response"
    using k _ query_upstream_quiet by (rule cached_query_miss) simp
  then show ?thesis
    by (simp add: api_dispatch_def report_request_fields api_sql_def sql_nonempty)
qed

text \<open>
  C5. On a reporting path with a configured token that is not empty, a request whose
  authorization header is \<^verbatim>\<open>Bearer \<close> followed by the token goes on to the routing of
  the path; every other request is answered with the status 401, and nothing is done for
  it beyond the telemetry block that precedes the check. With the empty token every
  request goes on to the routing, whatever header it has.
\<close>

theorem reporting_authorization:
  assumes "isAPIPath (pathname_of req)"
  shows "(QUERY_TOKEN e \<noteq> [] \<and> authorization req = Some (''Bearer '' @ QUERY_TOKEN e) \<longrightarrow>
            fetch e req w = api_dispatch e req (log_php_attempt req w))
       \<and> (QUERY_TOKEN e \<noteq> [] \<and> authorization req \<noteq> Some (''Bearer '' @ QUERY_TOKEN e) \<longrightarrow>
            fetch e req w = (Inr unauthorized, log_php_attempt req w))
       \<and> (QUERY_TOKEN e = [] \<longrightarrow> fetch e req w = api_dispatch e req (log_php_attempt req w))
       \<and> status unauthorized = 401"
  using assms bearer_token_eq_iff [of "QUERY_TOKEN e" req]
  by (auto simp: fetch_def respond_def unauthorized_def)

theorem reporting_authorization_witness:
  "fst (fetch example_env (report_request ''/_php_log_top'' (Some ''Bearer wrong'')) quiet_world)
     = Inr unauthorized
   \<and> status unauthorized = 401
   \<and> fst (fetch example_env (report_request ''/_php_log_top'' (Some ''Bearer secret'')) quiet_world)
     = Inr miss_response
   \<and> fst (fetch open_env (report_request ''/_php_log_top'' None) quiet_world) = Inr miss_response"
proof -
  have p: "isAPIPath (pathname_of (report_request ''/_php_log_top'' a))" for a
    by (simp add: report_request_fields classified)
  have n: "log_php_attempt (report_request ''/_php_log_top'' a) w = w" for a w
    by (rule log_php_attempt_unflagged) (simp add: report_request_fields classified)
  have t: "QUERY_TOKEN example_env = ''secret''" "QUERY_TOKEN open_env = []"
    by (simp_all add: example_env_def open_env_def)
  from reporting_authorization
    [of "report_request ''/_php_log_top'' (Some ''Bearer wrong'')" example_env quiet_world] p
  have a: "fst (fetch example_env (report_request ''/_php_log_top'' (Some ''Bearer wrong'')) quiet_world)
     = Inr unauthorized \<and> status unauthorized = 401"
    by (simp add: t report_request_fields)
  from reporting_authorization
    [of "report_request ''/_php_log_top'' (Some ''Bearer secret'')" example_env quiet_world] p
  have b: "fetch example_env (report_request ''/_php_log_top'' (Some ''Bearer secret'')) quiet_world
     = api_dispatch example_env (report_request ''/_php_log_top'' (Some ''Bearer secret'')) quiet_world"
    by (simp add: t report_request_fields n)
  from reporting_authorization [of "report_request ''/_php_log_top'' None" open_env quiet_world] p
  have c: "fetch open_env (report_request ''/_php_log_top'' None) quiet_world
     = api_dispatch open_env (report_request ''/_php_log_top'' None) quiet_world"
    by (simp add: t n)
  show ?thesis
    using a by (simp add: b c api_dispatch_quiet)
qed

text \<open>
  C10. With a configured token that is not empty, the credential of a request is what
  follows the seven characters \<^verbatim>\<open>Bearer \<close> (capital B, one space) at the start of the
  authorization header. Where the header is absent or starts otherwise, as
  \<^verbatim>\<open>bearer \<close> and \<^verbatim>\<open>BEARER \<close> do, the credential is the empty string and the request
  is answered with 401, also when the rest of the header is the token. Where the header
  starts with the seven characters, all that follows is the credential, further spaces
  included: after two spaces the credential starts with a space, and the request is
  rejected because the credential differs from the token.
\<close>

theorem bearer_prefix_exact:
  assumes "isAPIPath (pathname_of req)" and "QUERY_TOKEN e \<noteq> []"
  shows "(authorization req = None \<longrightarrow>
            bearer_token req = [] \<and> fst (fetch e req w) = Inr unauthorized)
       \<and> (\<forall>h. authorization req = Some h \<and> \<not> prefix ''Bearer '' h \<longrightarrow>
            bearer_token req = [] \<and> fst (fetch e req w) = Inr unauthorized)
       \<and> (authorization req = Some (''bearer '' @ QUERY_TOKEN e) \<longrightarrow>
            fst (fetch e req w) = Inr unauthorized)
       \<and> (authorization req = Some (''BEARER '' @ QUERY_TOKEN e) \<longrightarrow>
            fst (fetch e req w) = Inr unauthorized)
       \<and> (authorization req = Some (''Bearer  '' @ QUERY_TOKEN e) \<longrightarrow>
            bearer_token req = '' '' @ QUERY_TOKEN e \<and> fst (fetch e req w) = Inr unauthorized)
       \<and> (\<forall>t. authorization req = Some (''Bearer '' @ t) \<longrightarrow>
            bearer_token req = t
            \<and> (t \<noteq> QUERY_TOKEN e \<longrightarrow> fst (fetch e req w) = Inr unauthorized)
            \<and> (t = QUERY_TOKEN e \<longrightarrow> fetch e req w = api_dispatch e req (log_php_attempt req w)))
       \<and> length ''Bearer '' = 7"
proof -
  have rej: "bearer_token req \<noteq> QUERY_TOKEN e \<Longrightarrow> fst (fetch e req w) = Inr unauthorized"
    using assms by (simp add: fetch_def respond_def)
  have acc: "bearer_token req = QUERY_TOKEN e \<Longrightarrow>
      fetch e req w = api_dispatch e req (log_php_attempt req w)"
    using assms by (simp add: fetch_def respond_def)
  have none: "authorization req = None \<longrightarrow>
            bearer_token req = [] \<and> fst (fetch e req w) = Inr unauthorized"
    using rej assms(2) by (auto simp: bearer_token_None)
  have nop: "\<forall>h. authorization req = Some h \<and> \<not> prefix ''Bearer '' h \<longrightarrow>
            bearer_token req = [] \<and> fst (fetch e req w) = Inr unauthorized"
    using rej assms(2) by (auto simp: bearer_token_no_prefix)
  have low: "authorization req = Some (''bearer '' @ QUERY_TOKEN e) \<longrightarrow>
            fst (fetch e req w) = Inr unauthorized"
    using nop by simp
  have upp: "authorization req = Some (''BEARER '' @ QUERY_TOKEN e) \<longrightarrow>
            fst (fetch e req w) = Inr unauthorized"
    using nop by simp
  have two: "authorization req = Some (''Bearer  '' @ QUERY_TOKEN e) \<longrightarrow>
            bearer_token req = '' '' @ QUERY_TOKEN e \<and> fst (fetch e req w) = Inr unauthorized"
  proof
    assume a: "authorization req = Some (''Bearer  '' @ QUERY_TOKEN e)"
    then have "authorization req = Some (''Bearer '' @ ('' '' @ QUERY_TOKEN e))" by simp
    then have b: "bearer_token req = '' '' @ QUERY_TOKEN e" by (rule bearer_token_prefix)
    then have "bearer_token req \<noteq> QUERY_TOKEN e" by simp
    with b rej show "bearer_token req = '' '' @ QUERY_TOKEN e \<and> fst (fetch e req w) = Inr unauthorized"
      by simp
  qed
  have pre: "\<forall>t. authorization req = Some (''Bearer '' @ t) \<longrightarrow>
            bearer_token req = t
            \<and> (t \<noteq> QUERY_TOKEN e \<longrightarrow> fst (fetch e req w) = Inr unauthorized)
            \<and> (t = QUERY_TOKEN e \<longrightarrow> fetch e req w = api_dispatch e req (log_php_attempt req w))"
    using rej acc bearer_token_prefix [of req] by blast
  have len: "length ''Bearer '' = 7" by simp
  from none nop low upp two pre len show ?thesis by blast
qed

theorem bearer_prefix_exact_witness:
  "bearer_token (report_request ''/_php_log_top'' (Some ''bearer secret'')) = []
   \<and> fst (fetch example_env (report_request ''/_php_log_top'' (Some ''bearer secret'')) quiet_world)
       = Inr unauthorized
   \<and> fst (fetch example_env (report_request ''/_php_log_top'' (Some ''Bearer secret'')) quiet_world)
       = Inr miss_response"
proof -
  have p: "isAPIPath (pathname_of (report_request ''/_php_log_top'' a))" for a
    by (simp add: report_request_fields classified)
  have n: "log_php_attempt (report_request ''/_php_log_top'' a) w = w" for a w
    by (rule log_php_attempt_unflagged) (simp add: report_request_fields classified)
  have t: "QUERY_TOKEN example_env \<noteq> []" "QUERY_TOKEN example_env = ''secret''"
    by (simp_all add: example_env_def)
  from bearer_prefix_exact
    [of "report_request ''/_php_log_top'' (Some ''bearer secret'')" example_env quiet_world] p t(1)
  have a: "bearer_token (report_request ''/_php_log_top'' (Some ''bearer secret'')) = []
   \<and> fst (fetch example_env (report_request ''/_php_log_top'' (Some ''bearer secret'')) quiet_world)
       = Inr unauthorized"
    by (simp add: report_request_fields)
  from bearer_prefix_exact
    [of "report_request ''/_php_log_top'' (Some ''Bearer secret'')" example_env quiet_world] p t(1)
  have b: "fetch example_env (report_request ''/_php_log_top'' (Some ''Bearer secret'')) quiet_world
     = api_dispatch example_env (report_request ''/_php_log_top'' (Some ''Bearer secret'')) quiet_world"
    by (simp add: report_request_fields t(2) n)
  show ?thesis using a by (simp add: b api_dispatch_quiet)
qed

text \<open>
  After \<^verbatim>\<open>Bearer \<close> and a second space the credential is not the empty string, and a
  header of eight characters in all has a credential of one character.
\<close>

theorem bearer_prefix_counterexample:
  "bearer_token (report_request ''/_php_log_top'' (Some ''Bearer  secret'')) = '' secret''
   \<and> bearer_token (report_request ''/_php_log_top'' (Some ''Bearer x'')) = ''x''
   \<and> length ''Bearer x'' = 8"
  by (simp add: bearer_token_def report_request_def)

text \<open>
  C6. The path \<^verbatim>\<open>/_php_log_last\<close> has the query of the recent events (one day back,
  newest first, 20 rows); the paths \<^verbatim>\<open>/_php_log_top\<close> and \<^verbatim>\<open>/_php_log\<close> have the
  query of the paths by hits (one month back, most hits first, 20 rows). A request that
  passes the authorization check is served from that query through the cache, and on every
  other reporting path it is answered with the status 404. A request that does not pass
  the check is answered with 401 on every reporting path, the unknown ones included.
\<close>

theorem reporting_dispatch:
  "api_sql ''/_php_log_last'' = Some sql_last
   \<and> api_sql ''/_php_log_top'' = Some sql_top
   \<and> api_sql ''/_php_log'' = Some sql_top
   \<and> sublist ''INTERVAL '1' DAY'' sql_last \<and> sublist ''ORDER BY timestamp DESC'' sql_last
   \<and> sublist ''LIMIT 20'' sql_last
   \<and> sublist ''INTERVAL '1' MONTH'' sql_top \<and> sublist ''count() AS hits'' sql_top
   \<and> sublist ''ORDER BY hits DESC'' sql_top \<and> sublist ''LIMIT 20'' sql_top
   \<and> (isAPIPath (pathname_of req) \<and> (QUERY_TOKEN e = [] \<or> bearer_token req = QUERY_TOKEN e) \<longrightarrow>
        (pathname_of req = ''/_php_log_last'' \<longrightarrow>
           fetch e req w = cached_query e ''/_php_log_last'' sql_last (log_php_attempt req w))
        \<and> (pathname_of req = ''/_php_log_top'' \<or> pathname_of req = ''/_php_log'' \<longrightarrow>
           fetch e req w = cached_query e (pathname_of req) sql_top (log_php_attempt req w))
        \<and> (pathname_of req \<noteq> ''/_php_log_last'' \<and> pathname_of req \<noteq> ''/_php_log_top''
            \<and> pathname_of req \<noteq> ''/_php_log'' \<longrightarrow>
           fetch e req w = (Inr api_not_found, log_php_attempt req w)))
   \<and> (isAPIPath (pathname_of req) \<and> QUERY_TOKEN e \<noteq> [] \<and> bearer_token req \<noteq> QUERY_TOKEN e \<longrightarrow>
        fetch e req w = (Inr unauthorized, log_php_attempt req w))
   \<and> status api_not_found = 404 \<and> status unauthorized = 401"
proof -
  have sqls: "api_sql ''/_php_log_last'' = Some sql_last" "api_sql ''/_php_log_top'' = Some sql_top"
    "api_sql ''/_php_log'' = Some sql_top"
    by (simp_all add: api_sql_def)
  have other: "p \<noteq> ''/_php_log_last'' \<Longrightarrow> p \<noteq> ''/_php_log_top'' \<Longrightarrow> p \<noteq> ''/_php_log''
      \<Longrightarrow> api_sql p = None" for p
    by (simp add: api_sql_def)
  have routed: "isAPIPath (pathname_of req) \<and> (QUERY_TOKEN e = [] \<or> bearer_token req = QUERY_TOKEN e)
      \<Longrightarrow> fetch e req w = api_dispatch e req (log_php_attempt req w)"
    by (auto simp: fetch_def respond_def)
  have gate: "isAPIPath (pathname_of req) \<and> QUERY_TOKEN e \<noteq> [] \<and> bearer_token req \<noteq> QUERY_TOKEN e
      \<longrightarrow> fetch e req w = (Inr unauthorized, log_php_attempt req w)"
    by (simp add: fetch_def respond_def)
  have disp: "isAPIPath (pathname_of req) \<and> (QUERY_TOKEN e = [] \<or> bearer_token req = QUERY_TOKEN e) \<longrightarrow>
        (pathname_of req = ''/_php_log_last'' \<longrightarrow>
           fetch e req w = cached_query e ''/_php_log_last'' sql_last (log_php_attempt req w))
        \<and> (pathname_of req = ''/_php_log_top'' \<or> pathname_of req = ''/_php_log'' \<longrightarrow>
           fetch e req w = cached_query e (pathname_of req) sql_top (log_php_attempt req w))
        \<and> (pathname_of req \<noteq> ''/_php_log_last'' \<and> pathname_of req \<noteq> ''/_php_log_top''
            \<and> pathname_of req \<noteq> ''/_php_log'' \<longrightarrow>
           fetch e req w = (Inr api_not_found, log_php_attempt req w))"
    using routed other [of "pathname_of req"]
    by (auto simp: api_dispatch_def sqls sql_nonempty)
  have st: "status api_not_found = 404" "status unauthorized = 401"
    by (simp_all add: api_not_found_def unauthorized_def)
  from sqls sql_last_contents sql_top_contents disp gate st show ?thesis
    by (simp only: simp_thms)
qed

theorem reporting_dispatch_witness:
  "fetch open_env (report_request ''/_php_log_bogus'' None) quiet_world = (Inr api_not_found, quiet_world)
   \<and> fetch example_env (report_request ''/_php_log_bogus'' (Some ''Bearer secret'')) quiet_world
       = (Inr api_not_found, quiet_world)
   \<and> status api_not_found = 404
   \<and> fst (fetch open_env (report_request ''/_php_log_top'' None) quiet_world) = Inr miss_response"
proof -
  have n: "log_php_attempt (report_request ''/_php_log_bogus'' a) w = w"
    "log_php_attempt (report_request ''/_php_log_top'' a) w = w" for a w
    by (rule log_php_attempt_unflagged, simp add: report_request_fields classified)+
  have t: "QUERY_TOKEN example_env = ''secret''" "QUERY_TOKEN open_env = []"
    by (simp_all add: example_env_def open_env_def)
  have b: "bearer_token (report_request p (Some ''Bearer secret'')) = ''secret''" for p
    by (simp add: bearer_token_def report_request_def)
  have k: "kv_get_json quiet_world ''/_php_log_top'' = Inr JNull"
    by (simp add: kv_get_json_def quiet_world_def)
  from reporting_dispatch [of "report_request ''/_php_log_bogus'' None" open_env quiet_world]
  have 1: "fetch open_env (report_request ''/_php_log_bogus'' None) quiet_world
      = (Inr api_not_found, quiet_world) \<and> status api_not_found = 404"
    by (simp add: report_request_fields classified t n)
  from reporting_dispatch
    [of "report_request ''/_php_log_bogus'' (Some ''Bearer secret'')" example_env quiet_world]
  have 2: "fetch example_env (report_request ''/_php_log_bogus'' (Some ''Bearer secret'')) quiet_world
      = (Inr api_not_found, quiet_world)"
    by (simp add: report_request_fields classified t n b)
  from reporting_dispatch [of "report_request ''/_php_log_top'' None" open_env quiet_world]
  have 3: "fetch open_env (report_request ''/_php_log_top'' None) quiet_world
      = cached_query open_env ''/_php_log_top'' sql_top quiet_world"
    by (simp add: report_request_fields classified t n)
  have 4: "fst (cached_query open_env ''/_php_log_top'' sql_top quiet_world) = Inr miss_response"
    using k _ query_upstream_quiet by (rule cached_query_miss) simp
  from 1 2 show ?thesis by (simp add: 3 4)
qed

text \<open>
  With a configured token and no credential, the unknown reporting path is answered with
  401, not 404.
\<close>

theorem unknown_path_unauthorized_counterexample:
  "fst (fetch example_env (report_request ''/_php_log_bogus'' None) quiet_world) = Inr unauthorized
   \<and> status unauthorized = 401"
  by (simp add: fetch_def respond_def report_request_fields classified bearer_token_def
        example_env_def unauthorized_def)


section \<open>Properties of the cached gateway\<close>

lemma supported_paths:
  assumes "api_sql p = Some sql"
  shows "isAPIPath p" and "\<not> isPhpPath p" and "sql \<noteq> []"
proof -
  from assms have p: "p = ''/_php_log_last'' \<or> p = ''/_php_log'' \<or> p = ''/_php_log_top''"
    by (auto simp: api_sql_def split: if_splits)
  have c: "isAPIPath ''/_php_log_last''" "isAPIPath ''/_php_log''" "isAPIPath ''/_php_log_top''"
    "\<not> isPhpPath ''/_php_log_last''" "\<not> isPhpPath ''/_php_log''" "\<not> isPhpPath ''/_php_log_top''"
    by code_simp+
  from p c show "isAPIPath p" by auto
  from p c show "\<not> isPhpPath p" by auto
  from assms show "sql \<noteq> []" by (auto simp: api_sql_def sql_nonempty split: if_splits)
qed

lemma fetch_served:
  assumes "served e req sql"
  shows "fetch e req w = cached_query e (pathname_of req) sql w"
proof -
  from assms have s: "api_sql (pathname_of req) = Some sql"
    and a: "QUERY_TOKEN e = [] \<or> bearer_token req = QUERY_TOKEN e"
    by (simp_all add: served_def)
  note sp = supported_paths [OF s]
  have "log_php_attempt req w = w" using sp(2) by (rule log_php_attempt_unflagged)
  then show ?thesis
    using a sp(1) sp(3) s by (auto simp: fetch_def respond_def api_dispatch_def)
qed

lemma cache_miss_get:
  assumes "cache_miss w key"
  shows "\<exists>v. kv_get_json w key = Inr v \<and> \<not> truthy v"
  using assms by (auto simp: cache_miss_def kv_get_json_def)

lemma cached_query_on_miss:
  assumes "cache_miss w p"
  shows "cached_query e p sql w =
     (case query_upstream e p sql w of
        (Inl err, w') \<Rightarrow>
          (Inr \<lparr>status = 500, headers = [], body = Text (error_to_string err @ [CHR 0x0A])\<rparr>, w')
      | (Inr resp, w') \<Rightarrow> (Inr resp, w'))"
  using cache_miss_get [OF assms] by (auto simp: cached_query_def)




lemma query_upstream_not_ok:
  assumes "api w (ae_request_for (ACCOUNT_ID e) (ANALYTICS_API_TOKEN e) sql) = Inr res"
    and "\<not> up_ok res"
  shows "query_upstream e p sql w =
     (Inl (Error (''AE API: '' @ decimal (up_status res) @ '': '' @ text_or_empty res)),
      w\<lparr>api_calls := api_calls w @ [ae_request_for (ACCOUNT_ID e) (ANALYTICS_API_TOKEN e) sql]\<rparr>)"
  using assms by (simp add: query_upstream_def Let_def)

lemma query_upstream_malformed:
  assumes "api w (ae_request_for (ACCOUNT_ID e) (ANALYTICS_API_TOKEN e) sql) = Inr res"
    and "up_ok res" and "up_json res = Inl err"
  shows "query_upstream e p sql w =
     (Inl err,
      w\<lparr>api_calls := api_calls w @ [ae_request_for (ACCOUNT_ID e) (ANALYTICS_API_TOKEN e) sql]\<rparr>)"
  using assms by (simp add: query_upstream_def Let_def)

lemma served_top:
  "served open_env (report_request ''/_php_log_top'' None) sql_top"
  "served example_env (report_request ''/_php_log_top'' (Some ''Bearer secret'')) sql_top"
  by (simp_all add: served_def report_request_fields api_sql_def open_env_def example_env_def
        bearer_token_def)


lemma env_fields:
  "ACCOUNT_ID open_env = ''acct''" "ANALYTICS_API_TOKEN open_env = ''api-token''"
  "ACCOUNT_ID example_env = ''acct''" "ANALYTICS_API_TOKEN example_env = ''api-token''"
  by (simp_all add: open_env_def example_env_def)




text \<open>
  C8. On a miss, when the endpoint answers the query with a status outside 200 to 299, the
  handler answers 500 with the plain text \<^verbatim>\<open>Error: AE API: \<close>, the status, a colon and
  the text of the upstream body, which is empty when the body cannot be read; the status
  and the text are parts of that body. The store is as it was and no write is attempted.
  \<open>queryAnalyticsEngine\<close> raises an error with the same two parts.
\<close>

theorem upstream_failure_propagated:
  assumes "served e req sql" and "cache_miss w (pathname_of req)"
    and "api w (ae_request_for (ACCOUNT_ID e) (ANALYTICS_API_TOKEN e) sql) = Inr res"
    and "\<not> up_ok res"
  shows "fetch e req w =
           (Inr \<lparr>status = 500, headers = [],
                 body = Text (''Error: AE API: '' @ decimal (up_status res) @ '': ''
                              @ (case up_text res of Inl err \<Rightarrow> [] | Inr txt \<Rightarrow> txt)
                              @ [CHR 0x0A])\<rparr>,
            w\<lparr>api_calls :=
                 api_calls w @ [ae_request_for (ACCOUNT_ID e) (ANALYTICS_API_TOKEN e) sql]\<rparr>)
       \<and> kv (snd (fetch e req w)) = kv w
       \<and> kv_puts (snd (fetch e req w)) = kv_puts w
       \<and> sublist (decimal (up_status res))
            (''Error: AE API: '' @ decimal (up_status res) @ '': ''
              @ (case up_text res of Inl err \<Rightarrow> [] | Inr txt \<Rightarrow> txt) @ [CHR 0x0A])
       \<and> sublist (case up_text res of Inl err \<Rightarrow> [] | Inr txt \<Rightarrow> txt)
            (''Error: AE API: '' @ decimal (up_status res) @ '': ''
              @ (case up_text res of Inl err \<Rightarrow> [] | Inr txt \<Rightarrow> txt) @ [CHR 0x0A])
       \<and> queryAnalyticsEngine (api w) (ACCOUNT_ID e) (ANALYTICS_API_TOKEN e) sql =
           Inl (Error (''Analytics API error '' @ decimal (up_status res) @ '': ''
                       @ (case up_text res of Inl err \<Rightarrow> [] | Inr txt \<Rightarrow> txt)))"
proof -
  let ?txt = "case up_text res of Inl err \<Rightarrow> [] | Inr txt \<Rightarrow> txt"
  let ?rq = "ae_request_for (ACCOUNT_ID e) (ANALYTICS_API_TOKEN e) sql"
  have t: "text_or_empty res = ?txt" by (simp add: text_or_empty_def)
  have f: "fetch e req w =
           (Inr \<lparr>status = 500, headers = [],
                 body = Text (''Error: AE API: '' @ decimal (up_status res) @ '': '' @ ?txt
                              @ [CHR 0x0A])\<rparr>,
            w\<lparr>api_calls := api_calls w @ [?rq]\<rparr>)"
    unfolding fetch_served [OF assms(1)] cached_query_on_miss [OF assms(2)]
      query_upstream_not_ok [OF assms(3,4)] t
    by (simp add: error_to_string_def)
  have s1: "sublist (decimal (up_status res))
            (''Error: AE API: '' @ decimal (up_status res) @ '': '' @ ?txt @ [CHR 0x0A])"
    by (rule sublist_appendI)
  have "sublist ?txt ((''Error: AE API: '' @ decimal (up_status res) @ '': '') @ ?txt @ [CHR 0x0A])"
    by (rule sublist_appendI)
  then have s2: "sublist ?txt
            (''Error: AE API: '' @ decimal (up_status res) @ '': '' @ ?txt @ [CHR 0x0A])"
    by simp
  have q: "queryAnalyticsEngine (api w) (ACCOUNT_ID e) (ANALYTICS_API_TOKEN e) sql =
           Inl (Error (''Analytics API error '' @ decimal (up_status res) @ '': '' @ ?txt))"
    using assms(3,4) by (simp add: queryAnalyticsEngine_def t)
  from f s1 s2 q show ?thesis by simp
qed

theorem upstream_failure_propagated_witness:
  "fetch open_env (report_request ''/_php_log_top'' None) failing_world =
     (Inr \<lparr>status = 500, headers = [], body = Text (''Error: AE API: 500: boom'' @ [CHR 0x0A])\<rparr>,
      failing_world\<lparr>api_calls := [ae_request_for ''acct'' ''api-token'' sql_top]\<rparr>)
   \<and> kv (snd (fetch open_env (report_request ''/_php_log_top'' None) failing_world)) = Map.empty
   \<and> kv_puts (snd (fetch open_env (report_request ''/_php_log_top'' None) failing_world)) = []"
proof -
  let ?req = "report_request ''/_php_log_top'' None"
  let ?res = "\<lparr>up_status = 500, up_text = Inr ''boom'',
                up_json = Inl (SyntaxError ''Unexpected token b'')\<rparr>"
  have m: "cache_miss failing_world (pathname_of ?req)"
    by (simp add: cache_miss_def failing_world_def quiet_world_def)
  have a: "api failing_world (ae_request_for (ACCOUNT_ID open_env) (ANALYTICS_API_TOKEN open_env) sql_top)
      = Inr ?res"
    by (simp add: failing_world_def)
  have n: "\<not> up_ok ?res" by (simp add: up_ok_def)
  have q: "api_calls failing_world = []" "kv failing_world = Map.empty" "kv_puts failing_world = []"
    by (simp_all add: failing_world_def quiet_world_def)
  from upstream_failure_propagated [OF served_top(1) m a n]
  show ?thesis by (simp add: env_fields q decimal_500)
qed

lemma normalize_empty_object: "normalize (JObj []) = Inr \<lparr>count = 0, items = []\<rparr>"
  by (simp add: normalize_def extractCols_def extractRows_def)

lemma cached_query_malformed_json:
  assumes "served e req sql" and "cache_miss w (pathname_of req)"
    and "api w (ae_request_for (ACCOUNT_ID e) (ANALYTICS_API_TOKEN e) sql) = Inr res"
    and "up_ok res" and "up_json res = Inl err"
  shows "fetch e req w =
           (Inr \<lparr>status = 500, headers = [], body = Text (error_to_string err @ [CHR 0x0A])\<rparr>,
            w\<lparr>api_calls :=
                 api_calls w @ [ae_request_for (ACCOUNT_ID e) (ANALYTICS_API_TOKEN e) sql]\<rparr>)"
    and "queryAnalyticsEngine (api w) (ACCOUNT_ID e) (ANALYTICS_API_TOKEN e) sql =
           Inr \<lparr>count = 0, items = []\<rparr>"
proof -
  show "fetch e req w =
           (Inr \<lparr>status = 500, headers = [], body = Text (error_to_string err @ [CHR 0x0A])\<rparr>,
            w\<lparr>api_calls :=
                 api_calls w @ [ae_request_for (ACCOUNT_ID e) (ANALYTICS_API_TOKEN e) sql]\<rparr>)"
    unfolding fetch_served [OF assms(1)] cached_query_on_miss [OF assms(2)]
      query_upstream_malformed [OF assms(3,4,5)]
    by simp
  show "queryAnalyticsEngine (api w) (ACCOUNT_ID e) (ANALYTICS_API_TOKEN e) sql =
           Inr \<lparr>count = 0, items = []\<rparr>"
    using assms(3,4,5) by (simp add: queryAnalyticsEngine_def normalize_empty_object)
qed

text \<open>
  C9. A success status with a body that is not JSON, on a miss: \<^verbatim>\<open>response.json()\<close>
  rejects, the \<^verbatim>\<open>catch\<close> of the handler answers 500 with the text of the SyntaxError,
  and the caller gets no payload. \<open>queryAnalyticsEngine\<close>, given the same answer of the
  endpoint, takes the body for the empty object and returns the empty result.
\<close>

theorem malformed_json_in_gateway:
  "fetch open_env (report_request ''/_php_log_top'' None) malformed_world =
     (Inr \<lparr>status = 500, headers = [],
           body = Text (''SyntaxError: Unexpected token <'' @ [CHR 0x0A])\<rparr>,
      malformed_world\<lparr>api_calls := [ae_request_for ''acct'' ''api-token'' sql_top]\<rparr>)
   \<and> queryAnalyticsEngine (api malformed_world) ''acct'' ''api-token'' sql_top =
       Inr \<lparr>count = 0, items = []\<rparr>"
proof -
  let ?req = "report_request ''/_php_log_top'' None"
  let ?res = "\<lparr>up_status = 200, up_text = Inr ''<html>'',
                up_json = Inl (SyntaxError ''Unexpected token <'')\<rparr>"
  have m: "cache_miss malformed_world (pathname_of ?req)"
    by (simp add: cache_miss_def malformed_world_def quiet_world_def)
  have a: "api malformed_world
             (ae_request_for (ACCOUNT_ID open_env) (ANALYTICS_API_TOKEN open_env) sql_top) = Inr ?res"
    by (simp add: malformed_world_def)
  have ok: "up_ok ?res" by (simp add: up_ok_def)
  have j: "up_json ?res = Inl (SyntaxError ''Unexpected token <'')" by simp
  have q: "api_calls malformed_world = []" by (simp add: malformed_world_def quiet_world_def)
  from cached_query_malformed_json [OF served_top(1) m a ok j]
  show ?thesis by (simp add: env_fields q error_to_string_def)
qed


section \<open>Properties of the normalizer\<close>

text \<open>
  What the normalizer does on the other bodies. It returns a result, with the count of
  its items, whenever no row is \<^verbatim>\<open>null\<close>; the rows are the items as they are when
  there are no columns, no rows, or a first row that is not an array; and a matrix of
  arrays under distinct column names becomes objects with the columns as keys in their
  order, a cell that the row lacks being \<^verbatim>\<open>undefined\<close>, when no column name is an
  array index.
\<close>

lemma get_index_total: "r \<noteq> JNull \<Longrightarrow> r \<noteq> JUndefined \<Longrightarrow> \<exists>v. get_index r i = Inr v"
  by (cases r) simp_all

lemma zip_loop_total:
  assumes "r \<noteq> JNull" and "r \<noteq> JUndefined"
  shows "\<exists>obj'. zip_loop cols r i obj = Inr obj'"
  using assms
proof (induction cols r i obj rule: zip_loop.induct)
  case (1 cols rowArr i obj)
  show ?case
  proof (cases "i < length cols")
    case False
    then show ?thesis by (subst zip_loop.simps) simp
  next
    case True
    from get_index_total [OF "1.prems"] obtain v where v: "get_index rowArr i = Inr v" by blast
    from "1.IH" [OF True v "1.prems"] obtain obj' where
      "zip_loop cols rowArr (Suc i) (assign_prop obj (cols ! i) v) = Inr obj'" by blast
    with True v show ?thesis by (subst zip_loop.simps) simp
  qed
qed

lemma zip_row_total: "r \<noteq> JNull \<Longrightarrow> r \<noteq> JUndefined \<Longrightarrow> \<exists>x. zip_row cols r = Inr x"
  using zip_loop_total [of r cols 0 "[]"] by (auto simp: zip_row_def)

lemma map_rows_total:
  assumes "\<forall>r\<in>set rows. \<exists>x. f r = Inr x"
  shows "\<exists>xs. map_rows f rows = Inr xs \<and> length xs = length rows"
  using assms by (induction rows) (auto split: sum.split)

lemma map_rows_map:
  assumes "\<forall>r\<in>set rows. f r = Inr (g r)"
  shows "map_rows f rows = Inr (map g rows)"
  using assms by (induction rows) auto

lemma normalize_total:
  assumes "\<forall>r\<in>set (extractRows parsed). r \<noteq> JNull \<and> r \<noteq> JUndefined"
  shows "\<exists>its. normalize parsed = Inr \<lparr>count = length its, items = its\<rparr>
               \<and> length its = length (extractRows parsed)"
proof -
  from assms have "\<forall>r\<in>set (extractRows parsed). \<exists>x. zip_row (extractCols parsed) r = Inr x"
    using zip_row_total by blast
  from map_rows_total [OF this] obtain xs where
    "map_rows (zip_row (extractCols parsed)) (extractRows parsed) = Inr xs"
    "length xs = length (extractRows parsed)" by blast
  then show ?thesis by (auto simp: normalize_def Let_def)
qed

lemma normalize_passthrough:
  assumes "extractCols parsed = [] \<or> extractRows parsed = [] \<or> \<not> isArray (hd (extractRows parsed))"
  shows "normalize parsed = Inr \<lparr>count = length (extractRows parsed), items = extractRows parsed\<rparr>"
  using assms by (auto simp: normalize_def Let_def hd_conv_nth)

text \<open>
  Where the column names are read, \<^verbatim>\<open>String\<close> is applied to strings only, which it
  returns as they are.
\<close>

lemma String_of_string: "typeof v = TString \<Longrightarrow> js_String v = Inr (string_value v)"
  by (cases v) simp_all

lemma set_prop_fresh:
  "k \<notin> fst ` set obj \<Longrightarrow> array_index k = None \<Longrightarrow> set_prop obj k v = obj @ [(k, v)]"
  by (simp add: set_prop_def map_of_eq_None_iff)

lemma array_index_examples:
  "array_index ''a'' = None" "array_index ''b'' = None" "array_index ''x'' = None"
  "array_index ''1'' = Some 1" "array_index ''01'' = None"
  by (simp_all add: array_index_def is_digit_def numeral_value_def)

lemma zip_loop_array:
  assumes "distinct cols" and "''__proto__'' \<notin> set cols"
    and "\<forall>c\<in>set cols. array_index c = None"
    and "i \<le> length cols" and "map fst obj = take i cols"
  shows "zip_loop cols (JArr xs) i obj =
           Inr (obj @ zip (drop i cols) (map (cell xs) [i..<length cols]))"
  using assms
proof (induction cols "JArr xs" i obj rule: zip_loop.induct)
  case (1 cols i obj)
  show ?case
  proof (cases "i < length cols")
    case False
    with "1.prems" show ?thesis by (subst zip_loop.simps) simp
  next
    case True
    let ?k = "cols ! i"
    let ?obj = "assign_prop obj ?k (cell xs i)"
    have g: "get_index (JArr xs) i = Inr (cell xs i)" by (simp add: cell_def)
    have "?k \<notin> set (take i cols)"
      using "1.prems"(1) True
      by (metis (no_types, lifting) distinct_conv_nth in_set_conv_nth length_take
          min.absorb4 nat_neq_iff nth_take order_less_trans)
    then have fresh: "?k \<notin> fst ` set obj" using "1.prems"(5) by (metis set_map)
    have np: "?k \<noteq> ''__proto__''" using "1.prems"(2) True by (metis nth_mem)
    have ni: "array_index ?k = None" using "1.prems"(3) True by (metis nth_mem)
    have o: "?obj = obj @ [(?k, cell xs i)]"
      using fresh np ni by (simp add: assign_prop_def set_prop_fresh)
    have keys: "map fst ?obj = take (Suc i) cols"
      using "1.prems"(5) True by (simp add: o take_Suc_conv_app_nth)
    have "zip_loop cols (JArr xs) (Suc i) ?obj =
        Inr (?obj @ zip (drop (Suc i) cols) (map (cell xs) [Suc i..<length cols]))"
      using "1.hyps" [OF True g "1.prems"(1,2,3) _ keys] True by simp
    moreover have "zip (drop i cols) (map (cell xs) [i..<length cols]) =
        (?k, cell xs i) # zip (drop (Suc i) cols) (map (cell xs) [Suc i..<length cols])"
      using True by (simp add: Cons_nth_drop_Suc [symmetric] upt_conv_Cons)
    ultimately show ?thesis
      using True g by (subst zip_loop.simps) (simp add: o)
  qed
qed

lemma zip_row_array:
  assumes "distinct cols" and "''__proto__'' \<notin> set cols"
    and "\<forall>c\<in>set cols. array_index c = None"
  shows "zip_row cols (JArr xs) = Inr (JObj (zip cols (map (cell xs) [0..<length cols])))"
  using zip_loop_array [OF assms, of 0 "[]" xs] by (simp add: zip_row_def)

lemma normalize_zips:
  assumes "extractCols parsed \<noteq> []" and "extractRows parsed \<noteq> []"
    and "\<forall>r\<in>set (extractRows parsed). isArray r"
    and "distinct (extractCols parsed)" and "''__proto__'' \<notin> set (extractCols parsed)"
    and "\<forall>c\<in>set (extractCols parsed). array_index c = None"
  shows "normalize parsed =
     Inr \<lparr>count = length (extractRows parsed),
          items = map (\<lambda>r. JObj (zip (extractCols parsed)
                                    (map (cell (elems r)) [0..<length (extractCols parsed)])))
                      (extractRows parsed)\<rparr>"
proof -
  let ?cols = "extractCols parsed" and ?rows = "extractRows parsed"
  let ?g = "\<lambda>r. JObj (zip ?cols (map (cell (elems r)) [0..<length ?cols]))"
  have "\<forall>r\<in>set ?rows. zip_row ?cols r = Inr (?g r)"
  proof
    fix r assume "r \<in> set ?rows"
    with assms(3) have "isArray r" by blast
    then obtain xs where "r = JArr xs" by (cases r) simp_all
    then show "zip_row ?cols r = Inr (?g r)"
      using zip_row_array [OF assms(4,5,6), of xs] by simp
  qed
  then have m: "map_rows (zip_row ?cols) ?rows = Inr (map ?g ?rows)" by (rule map_rows_map)
  have "isArray (?rows ! 0)" using assms(2,3) by (metis length_greater_0_conv nth_mem)
  with assms(1,2) m show ?thesis by (simp add: normalize_def Let_def)
qed

lemma worked_examples:
  "normalize (JObj [(''meta'', JObj [(''columns'', JArr [JStr ''a'', JStr ''b''])]),
                    (''data'', JArr [JArr [JNum ''1'', JNum ''2''], JArr [JNum ''3'', JNum ''4'']])]) =
     Inr \<lparr>count = 2, items = [JObj [(''a'', JNum ''1''), (''b'', JNum ''2'')],
                               JObj [(''a'', JNum ''3''), (''b'', JNum ''4'')]]\<rparr>"
  "normalize (JObj [(''data'', JArr [JObj [(''x'', JNum ''1'')]])]) =
     Inr \<lparr>count = 1, items = [JObj [(''x'', JNum ''1'')]]\<rparr>"
  "normalize (JObj []) = Inr \<lparr>count = 0, items = []\<rparr>"
  by (simp_all add: normalize_def extractCols_def extractRows_def has_string_name_def
        is_string_def zip_row_def zip_loop.simps assign_prop_def set_prop_def
        array_index_examples)

text \<open>A column whose name is an array index comes first among the keys of the object.\<close>

lemma numeral_column_first:
  "normalize (JObj [(''columns'', JArr [JStr ''b'', JStr ''1'']),
                    (''data'', JArr [JArr [JNum ''10'', JNum ''20'']])]) =
     Inr \<lparr>count = 1, items = [JObj [(''1'', JNum ''20''), (''b'', JNum ''10'')]]\<rparr>"
  by (simp add: normalize_def extractCols_def extractRows_def has_string_name_def
        is_string_def zip_row_def zip_loop.simps assign_prop_def set_prop_def
        array_index_examples)

text \<open>
  C2. Column names and a first row that is an array, followed by a row that is
  \<^verbatim>\<open>null\<close>: the map over the rows reads \<^verbatim>\<open>rowArr[0]\<close> of \<^verbatim>\<open>null\<close>, and the
  normalizer raises a TypeError where a result with count and items is due.
\<close>

theorem null_row_in_matrix:
  "normalize (JObj [(''columns'', JArr [JStr ''a'']), (''data'', JArr [JArr [JNum ''1''], JNull])]) =
     Inl (TypeError (''Cannot read properties of null (reading '' @ [CHR 0x27] @ ''0''
                     @ [CHR 0x27] @ '')''))"
  by (simp add: normalize_def extractCols_def extractRows_def has_string_name_def
        is_string_def zip_row_def zip_loop.simps assign_prop_def set_prop_def
        array_index_examples decimal_0)

end
